theory Spec2Isabelle
  imports Main
begin

section \<open>simple-svg: the SVG builder of \<^verbatim>\<open>svg.py\<close>\<close>

text \<open>
  \<^verbatim>\<open>svg.py\<close> holds the attribute normaliser \<^verbatim>\<open>_fix_attrs\<close>, the context manager
  \<^verbatim>\<open>_SVGGroup\<close> and the class \<^verbatim>\<open>SVGBuilder\<close>, a subclass of Python's
  \<^verbatim>\<open>xml.etree.ElementTree.TreeBuilder\<close>. Every method is a HOL function of the same name.
  A method that mutates the builder takes the builder's state and returns the new one; a
  \<^verbatim>\<open>raise\<close> is the \<open>Inl\<close> branch of a sum.
\<close>

subsection \<open>Exceptions and values\<close>

datatype error =
    TypeError
  | ValueError
  | OverflowError
  | EndTagMismatch "string option" string
  | MissingEndTags
  | MissingToplevel

definition bindE :: "error + 'a \<Rightarrow> ('a \<Rightarrow> error + 'b) \<Rightarrow> error + 'b" where
  "bindE r f = (case r of Inl e \<Rightarrow> Inl e | Inr x \<Rightarrow> f x)"

text \<open>
  The values a caller hands over as attribute values or geometry. The program asks one
  thing of them, \<^verbatim>\<open>str(value)\<close> (and \<^verbatim>\<open>is not None\<close> for width and height), so an
  object of any other type (a float, a \<^verbatim>\<open>Decimal\<close>, an instance of a user class) is
  \<open>PObj r\<close> with \<open>r\<close> what its \<^verbatim>\<open>__str__\<close> does: it returns a text, \<open>Inr s\<close>, or it
  raises, \<open>Inl e\<close>.
\<close>

datatype pyval = PNone | PBool bool | PInt int | PStr string | PObj "error + string"

definition digit :: "nat \<Rightarrow> char" where
  "digit n = ''0123456789'' ! n"

definition is_digit :: "char \<Rightarrow> bool" where
  "is_digit c = (c \<in> set ''0123456789'')"

fun str_nat :: "nat \<Rightarrow> string" where
  "str_nat n = (if n < 10 then [digit n] else str_nat (n div 10) @ [digit (n mod 10)])"

declare str_nat.simps [simp del]

definition str_int :: "int \<Rightarrow> string" where
  "str_int i = (if i < 0 then CHR ''-'' # str_nat (nat (- i)) else str_nat (nat i))"

text \<open>
  \<^verbatim>\<open>str(value)\<close>. It can raise: the \<^verbatim>\<open>__str__\<close> of an object may, and CPython (from 3.11
  on, with the limit it starts with) raises \<^verbatim>\<open>ValueError\<close> for an int of more than 4300
  digits.
\<close>

definition int_max_str_digits :: nat where
  "int_max_str_digits = 4300"

fun py_str :: "pyval \<Rightarrow> error + string" where
  "py_str PNone = Inr ''None''"
| "py_str (PBool b) = Inr (if b then ''True'' else ''False'')"
| "py_str (PInt i) =
     (if int_max_str_digits < length (str_nat (nat \<bar>i\<bar>)) then Inl ValueError
      else Inr (str_int i))"
| "py_str (PStr s) = Inr s"
| "py_str (PObj r) = r"

subsection \<open>Dictionaries and keyword arguments\<close>

text \<open>
  A Python \<^verbatim>\<open>dict\<close> keeps its keys in insertion order and holds each key once: an
  association list with distinct keys. \<^verbatim>\<open>d[k] = v\<close> overwrites the value of a key that is
  present, in place, and appends a new key at the end.
\<close>

type_synonym kwargs = "(string \<times> pyval) list"
type_synonym attrs = "(string \<times> string) list"

primrec dict_set :: "'k \<Rightarrow> 'v \<Rightarrow> ('k \<times> 'v) list \<Rightarrow> ('k \<times> 'v) list" where
  "dict_set k v [] = [(k, v)]"
| "dict_set k v (p # ps) = (if fst p = k then (k, v) # ps else p # dict_set k v ps)"

definition keys :: "('k \<times> 'v) list \<Rightarrow> 'k list" where
  "keys d = map fst d"

text \<open>
  A call \<^verbatim>\<open>f(k1=v1, ..., **kwargs)\<close> collects the keywords written out and the entries of
  \<^verbatim>\<open>kwargs\<close> into one mapping; a name given twice is a \<^verbatim>\<open>TypeError\<close> (got multiple values
  for keyword argument).
\<close>

definition merge_kwargs :: "kwargs \<Rightarrow> kwargs \<Rightarrow> error + kwargs" where
  "merge_kwargs explicit star =
     (if distinct (keys (explicit @ star)) then Inr (explicit @ star) else Inl TypeError)"

text \<open>
  On entry to \<^verbatim>\<open>def f(self, p1, ..., pn, **kwargs)\<close> with \<open>p1 ... pn\<close> filled from the
  explicit arguments, a further keyword that names one of these parameters is a
  \<^verbatim>\<open>TypeError\<close> (got multiple values for argument); the other keywords become \<^verbatim>\<open>kwargs\<close>.
\<close>

definition bind_kwargs :: "string list \<Rightarrow> kwargs \<Rightarrow> error + kwargs" where
  "bind_kwargs params kws =
     (if list_ex (\<lambda>k. k \<in> set params) (keys kws) then Inl TypeError else Inr kws)"

subsection \<open>The attribute normaliser\<close>

text \<open>\<^verbatim>\<open>key.replace('_', '-')\<close>: both arguments are single characters.\<close>

definition replace_char :: "char \<Rightarrow> char \<Rightarrow> string \<Rightarrow> string" where
  "replace_char old new s = map (\<lambda>c. if c = old then new else c) s"

text \<open>
  \<^verbatim>\<open>
  def _fix_attrs(**kwargs):
      attrs = dict()
      for key, value in kwargs.items():
          attrs[key.replace('_', '-')] = str(value)
      return attrs
  \<close>
\<close>

text \<open>
  \<open>fix_attrs_loop attrs kwargs\<close> is the loop, entered with the dictionary \<open>attrs\<close> and the
  items of \<open>kwargs\<close> still to come. When \<^verbatim>\<open>str(value)\<close> raises, the loop ends there with
  that exception.
\<close>

fun fix_attrs_loop :: "attrs \<Rightarrow> kwargs \<Rightarrow> error + attrs" where
  "fix_attrs_loop attrs [] = Inr attrs"
| "fix_attrs_loop attrs ((key, value) # rest) =
     bindE (py_str value) (\<lambda>s.
       fix_attrs_loop (dict_set (replace_char CHR ''_'' CHR ''-'' key) s attrs) rest)"

definition fix_attrs :: "kwargs \<Rightarrow> error + attrs" where
  "fix_attrs kwargs = fix_attrs_loop [] kwargs"

subsection \<open>Floats and the \<^verbatim>\<open>%\<close> operator\<close>

text \<open>
  A Python float is an IEEE double: a NaN, an infinity with its sign, or a finite value
  \<open>(-1)\<^sup>s * m * 2\<^sup>e\<close>, kept exactly as \<open>Finite s m e\<close> (\<open>s\<close> true for a negative
  sign, so \<open>Finite True 0 0\<close> is \<open>-0.0\<close>).
\<close>

datatype pyfloat = Finite bool nat int | Infinity bool | NaN

definition is_finite :: "pyfloat \<Rightarrow> bool" where
  "is_finite x = (case x of Finite s m e \<Rightarrow> True | _ \<Rightarrow> False)"

text \<open>\<^verbatim>\<open>math.pi\<close> is \<open>0x1.921fb54442d18p+1\<close>, that is \<open>884279719003555 / 2\<^sup>4\<^sup>8\<close>.\<close>

definition math_pi :: pyfloat where
  "math_pi = Finite False 884279719003555 (- 48)"

text \<open>\<^verbatim>\<open>abs(x)\<close> clears the sign.\<close>

fun float_abs :: "pyfloat \<Rightarrow> pyfloat" where
  "float_abs (Finite s m e) = Finite False m e"
| "float_abs (Infinity s) = Infinity False"
| "float_abs NaN = NaN"

text \<open>
  The value of a finite float as a multiple of \<open>2\<^sup>e\<^sup>0\<close>, an integer when \<open>e0\<close> is at most
  the float's exponent.
\<close>

definition scaled :: "int \<Rightarrow> bool \<Rightarrow> nat \<Rightarrow> int \<Rightarrow> int" where
  "scaled e0 s m e = (if s then - 1 else 1) * int m * 2 ^ nat (e - e0)"

text \<open>\<^verbatim>\<open>x > y\<close>: false when either side is a NaN, else the order of the extended reals.\<close>

fun float_gt :: "pyfloat \<Rightarrow> pyfloat \<Rightarrow> bool" where
  "float_gt NaN y = False"
| "float_gt x NaN = False"
| "float_gt (Infinity s) (Infinity t) = (\<not> s \<and> t)"
| "float_gt (Infinity s) (Finite t m e) = (\<not> s)"
| "float_gt (Finite s m e) (Infinity t) = t"
| "float_gt (Finite s m e) (Finite t n f) = (scaled (min e f) t n f < scaled (min e f) s m e)"

text \<open>
  \<open>num / den\<close> rounded to the nearest integer, a tie going to the even one: the rounding
  of \<^verbatim>\<open>%f\<close> and of the conversion of an int to a float.
\<close>

definition round_half_even :: "nat \<Rightarrow> nat \<Rightarrow> nat" where
  "round_half_even num den =
     (let q = num div den; r = num mod den
      in if den < 2 * r \<or> (2 * r = den \<and> odd q) then q + 1 else q)"

text \<open>\<open>m * 2\<^sup>e\<close> in millionths, rounded.\<close>

definition millionths :: "nat \<Rightarrow> int \<Rightarrow> nat" where
  "millionths m e =
     (if 0 \<le> e then m * 2 ^ nat e * 1000000 else round_half_even (m * 1000000) (2 ^ nat (- e)))"

definition pad6 :: "nat \<Rightarrow> string" where
  "pad6 k = map (\<lambda>i. digit (k div 10 ^ i mod 10)) [5, 4, 3, 2, 1, 0]"

text \<open>
  The conversion \<^verbatim>\<open>%f\<close> of a float: six digits after the point for a finite value (the
  sign is kept when the value rounds to zero), \<^verbatim>\<open>nan\<close>, \<^verbatim>\<open>inf\<close> or \<^verbatim>\<open>-inf\<close> otherwise.
\<close>

fun fmt_f :: "pyfloat \<Rightarrow> string" where
  "fmt_f NaN = ''nan''"
| "fmt_f (Infinity s) = (if s then ''-inf'' else ''inf'')"
| "fmt_f (Finite s m e) =
     (let n = millionths m e
      in (if s then ''-'' else '''') @ str_nat (n div 1000000) @ ''.'' @ pad6 (n mod 1000000))"

text \<open>
  \<^verbatim>\<open>float(i)\<close> as \<^verbatim>\<open>%f\<close> applies it to an int: exact up to 53 bits, rounded to 53 bits
  above, \<^verbatim>\<open>OverflowError\<close> from \<open>2\<^sup>1\<^sup>0\<^sup>2\<^sup>4\<close> on.
\<close>

fun bit_length :: "nat \<Rightarrow> nat" where
  "bit_length n = (if n = 0 then 0 else Suc (bit_length (n div 2)))"

declare bit_length.simps [simp del]

definition float_of_int :: "int \<Rightarrow> error + pyfloat" where
  "float_of_int i =
     (let n = nat \<bar>i\<bar>; sh = bit_length n - 53; q = round_half_even n (2 ^ sh)
      in if 2 ^ 1024 \<le> q * 2 ^ sh then Inl OverflowError else Inr (Finite (i < 0) q (int sh)))"

text \<open>\<^verbatim>\<open>int(x)\<close> as \<^verbatim>\<open>%d\<close> applies it to a float: truncation towards zero.\<close>

fun int_of_float :: "pyfloat \<Rightarrow> error + int" where
  "int_of_float NaN = Inl ValueError"
| "int_of_float (Infinity s) = Inl OverflowError"
| "int_of_float (Finite s m e) =
     Inr ((if s then - 1 else 1) * int (if 0 \<le> e then m * 2 ^ nat e else m div 2 ^ nat (- e)))"

text \<open>
  \<^verbatim>\<open>format % args\<close> for the two conversions the program uses, \<^verbatim>\<open>%f\<close> and \<^verbatim>\<open>%d\<close>, on
  numbers; \<^verbatim>\<open>%%\<close> is a percent sign. Any other character after \<^verbatim>\<open>%\<close> is an unsupported format character
  (\<^verbatim>\<open>ValueError\<close>), too few or too many arguments a \<^verbatim>\<open>TypeError\<close>.
\<close>

datatype fmtarg = AFloat pyfloat | AInt int

fun conv_f :: "fmtarg \<Rightarrow> error + string" where
  "conv_f (AFloat x) = Inr (fmt_f x)"
| "conv_f (AInt i) = bindE (float_of_int i) (\<lambda>x. Inr (fmt_f x))"

fun conv_d :: "fmtarg \<Rightarrow> error + string" where
  "conv_d (AInt i) = Inr (str_int i)"
| "conv_d (AFloat x) = bindE (int_of_float x) (\<lambda>i. Inr (str_int i))"

fun py_format :: "string \<Rightarrow> fmtarg list \<Rightarrow> error + string" where
  "py_format [] [] = Inr []"
| "py_format [] (a # as) = Inl TypeError"
| "py_format (c # cs) as =
     (if c = CHR ''%'' then
        (case cs of
           [] \<Rightarrow> Inl ValueError
         | k # rest \<Rightarrow>
             if k = CHR ''%'' then bindE (py_format rest as) (\<lambda>t. Inr (CHR ''%'' # t))
             else if k = CHR ''f'' \<or> k = CHR ''d'' then
               (case as of
                  [] \<Rightarrow> Inl TypeError
                | a # as' \<Rightarrow>
                    bindE (if k = CHR ''f'' then conv_f a else conv_d a) (\<lambda>s.
                    bindE (py_format rest as') (\<lambda>t. Inr (s @ t))))
             else Inl ValueError)
      else bindE (py_format cs as) (\<lambda>t. Inr (c # t)))"

text \<open>
  Float addition and multiplication round, and \<^verbatim>\<open>math.cos\<close> and \<^verbatim>\<open>math.sin\<close> are the
  platform's; they raise \<^verbatim>\<open>ValueError\<close> on an infinite argument. The four are taken as
  given.
\<close>

record pylib =
  float_add :: "pyfloat \<Rightarrow> pyfloat \<Rightarrow> pyfloat"
  float_mul :: "pyfloat \<Rightarrow> pyfloat \<Rightarrow> pyfloat"
  math_cos :: "pyfloat \<Rightarrow> error + pyfloat"
  math_sin :: "pyfloat \<Rightarrow> error + pyfloat"

subsection \<open>The tree builder\<close>

text \<open>
  Modelled from the spec: the base class \<^verbatim>\<open>xml.etree.ElementTree.TreeBuilder\<close> with its
  methods \<^verbatim>\<open>start\<close>, \<^verbatim>\<open>end\<close>, \<^verbatim>\<open>data\<close> and \<^verbatim>\<open>close\<close>, and the \<^verbatim>\<open>append\<close> of an
  element, are the standard library's and not part of \<^verbatim>\<open>svg.py\<close>. The spec (sections 3, 6
  and 7) gives the builder a stack of the elements that are open: \<^verbatim>\<open>start\<close> opens an element
  with a tag and attributes, \<^verbatim>\<open>data\<close> appends text to the current element, \<^verbatim>\<open>end\<close> closes
  the element opened last and fails, naming the expected and the actual tag, when the tag
  is not the one of the innermost open element or when nothing is open, and \<^verbatim>\<open>close\<close>
  returns the root element.

  An open element is a frame holding its tag, its attributes and the children it has so
  far; the innermost open element is the head of the stack. When an element is closed it
  becomes the last child of the element below it, or the root when it was the outermost.
\<close>

datatype node = Element string attrs "node list" | Text string | Comment string

record frame =
  ftag :: string
  fattrs :: attrs
  fchildren :: "node list"

record builder =
  stack :: "frame list"
  root :: "node option"

definition frame_node :: "frame \<Rightarrow> node" where
  "frame_node fr = Element (ftag fr) (fattrs fr) (fchildren fr)"

definition TreeBuilder_init :: builder where
  "TreeBuilder_init = \<lparr>stack = [], root = None\<rparr>"

text \<open>\<^verbatim>\<open>elem.append(child)\<close> on the innermost open element.\<close>

definition append_child :: "node \<Rightarrow> builder \<Rightarrow> builder" where
  "append_child n b =
     (case stack b of
        [] \<Rightarrow> b
      | fr # frs \<Rightarrow> b\<lparr>stack := fr\<lparr>fchildren := fchildren fr @ [n]\<rparr> # frs\<rparr>)"

definition tb_start :: "string \<Rightarrow> attrs \<Rightarrow> builder \<Rightarrow> builder" where
  "tb_start tag attributes b =
     b\<lparr>stack := \<lparr>ftag = tag, fattrs = attributes, fchildren = []\<rparr> # stack b\<rparr>"

text \<open>
  A call of \<^verbatim>\<open>start\<close> passes the tag and the attributes. A call that leaves the attributes
  out does not fill the two parameters and raises \<^verbatim>\<open>TypeError\<close>.
\<close>

definition call_start :: "string \<Rightarrow> attrs option \<Rightarrow> builder \<Rightarrow> error + builder" where
  "call_start tag arg b =
     (case arg of None \<Rightarrow> Inl TypeError | Some attributes \<Rightarrow> Inr (tb_start tag attributes b))"

definition tb_data :: "string \<Rightarrow> builder \<Rightarrow> builder" where
  "tb_data s b = append_child (Text s) b"

definition tb_end :: "string \<Rightarrow> builder \<Rightarrow> error + builder" where
  "tb_end tag b =
     (case stack b of
        [] \<Rightarrow> Inl (EndTagMismatch None tag)
      | fr # frs \<Rightarrow>
          if ftag fr \<noteq> tag then Inl (EndTagMismatch (Some (ftag fr)) tag)
          else (case frs of
                  [] \<Rightarrow> Inr (b\<lparr>stack := [], root := Some (frame_node fr)\<rparr>)
                | p # ps \<Rightarrow> Inr (append_child (frame_node fr) (b\<lparr>stack := frs\<rparr>))))"

definition tb_close :: "builder \<Rightarrow> error + node" where
  "tb_close b =
     (if stack b \<noteq> [] then Inl MissingEndTags
      else case root b of None \<Rightarrow> Inl MissingToplevel | Some r \<Rightarrow> Inr r)"

subsection \<open>The group handle\<close>

text \<open>
  \<^verbatim>\<open>
  class _SVGGroup:
      def __init__(self, builder, tag):
          self.builder = builder
          self.tag = tag
      def __enter__(self):
          return self
      def __exit__(self, type, value, traceback):
          self.builder.end(self.tag)
  \<close>
  The handle refers to the builder that made it; the state of that builder is passed to
  \<open>SVGGroup_exit\<close>, so the handle itself keeps the tag only.
\<close>

record SVGGroup =
  group_tag :: string

definition SVGGroup_init :: "string \<Rightarrow> SVGGroup" where
  "SVGGroup_init tag = \<lparr>group_tag = tag\<rparr>"


definition SVGGroup_exit :: "SVGGroup \<Rightarrow> builder \<Rightarrow> error + builder" where
  "SVGGroup_exit h b = tb_end (group_tag h) b"



subsection \<open>The builder\<close>

text \<open>
  \<^verbatim>\<open>SVGBuilder.__init__(self, width=None, height=None, **kwargs)\<close>. The text of
  \<^verbatim>\<open>datetime.today().isoformat()\<close> is the argument \<open>now\<close>. \<^verbatim>\<open>self.svg\<close> is the element
  that \<^verbatim>\<open>start\<close> has just opened, the head of the stack.
\<close>

definition SVGBuilder_init :: "pyval \<Rightarrow> pyval \<Rightarrow> kwargs \<Rightarrow> string \<Rightarrow> error + builder" where
  "SVGBuilder_init width height extras now =
     bindE (bind_kwargs [''self'', ''width'', ''height''] extras) (\<lambda>kwargs.
     bindE (merge_kwargs [(''xmlns'', PStr ''http://www.w3.org/2000/svg''),
                          (''version'', PStr ''1.1'')] kwargs) (\<lambda>kws.
     bindE (fix_attrs kws) (\<lambda>attrs.
     bindE (if width \<noteq> PNone
            then bindE (py_str width) (\<lambda>s. Inr (dict_set ''width'' s attrs))
            else Inr attrs) (\<lambda>attrs.
     bindE (if height \<noteq> PNone
            then bindE (py_str height) (\<lambda>s. Inr (dict_set ''height'' s attrs))
            else Inr attrs) (\<lambda>attrs.
       Inr (append_child (Comment (''vbl-stats svg generated at '' @ now))
              (tb_start ''svg'' attrs TreeBuilder_init)))))))"

text \<open>
  \<^verbatim>\<open>
  def item(self, tag, **kwargs):
      self.start(tag, _fix_attrs(**kwargs))
      self.end(tag)
  \<close>
\<close>

definition item :: "string \<Rightarrow> kwargs \<Rightarrow> builder \<Rightarrow> error + builder" where
  "item tag kws b =
     bindE (bind_kwargs [''self'', ''tag''] kws) (\<lambda>kwargs.
     bindE (fix_attrs kwargs) (\<lambda>attrs.
       tb_end tag (tb_start tag attrs b)))"

text \<open>\<^verbatim>\<open>self.item('circle', cx=cx, cy=cy, r=r, **kwargs)\<close>\<close>

definition circle :: "pyval \<Rightarrow> pyval \<Rightarrow> pyval \<Rightarrow> kwargs \<Rightarrow> builder \<Rightarrow> error + builder" where
  "circle cx cy r extras b =
     bindE (bind_kwargs [''self'', ''cx'', ''cy'', ''r''] extras) (\<lambda>kwargs.
     bindE (merge_kwargs [(''cx'', cx), (''cy'', cy), (''r'', r)] kwargs) (\<lambda>kws.
       item ''circle'' kws b))"

text \<open>
  \<^verbatim>\<open>
  def circle_sector(self, cx, cy, r, alpha, theta, **kwargs):
      d = 'M%f,%f L%f,%f A%f,%f 0 %d,%d %f,%f Z' % \
          (cx, cy,
          cx + r * math.cos(alpha),
          cy + r * math.sin(alpha),
          r, r,
          1 if abs(theta) > math.pi else 0,
          1 if theta > 0 else 0,
          cx + r * math.cos(alpha + theta),
          cy + r * math.sin(alpha + theta))
      self.item('path', d=d, **kwargs)
  \<close>
  The five numbers are floats here. Python takes ints as well and turns each into a float
  where it meets a float, in \<^verbatim>\<open>math.cos\<close> and in \<^verbatim>\<open>%f\<close>. \<open>circle_sector_d\<close> is the
  assignment to \<^verbatim>\<open>d\<close>, \<open>circle_sector\<close> the method.
\<close>

definition circle_sector_d ::
  "pylib \<Rightarrow> pyfloat \<Rightarrow> pyfloat \<Rightarrow> pyfloat \<Rightarrow> pyfloat \<Rightarrow> pyfloat \<Rightarrow> error + string" where
  "circle_sector_d L cx cy r alpha theta =
     bindE (math_cos L alpha) (\<lambda>c1.
     bindE (math_sin L alpha) (\<lambda>s1.
     bindE (math_cos L (float_add L alpha theta)) (\<lambda>c2.
     bindE (math_sin L (float_add L alpha theta)) (\<lambda>s2.
       py_format ''M%f,%f L%f,%f A%f,%f 0 %d,%d %f,%f Z''
         [AFloat cx, AFloat cy,
          AFloat (float_add L cx (float_mul L r c1)),
          AFloat (float_add L cy (float_mul L r s1)),
          AFloat r, AFloat r,
          AInt (if float_gt (float_abs theta) math_pi then 1 else 0),
          AInt (if float_gt theta (Finite False 0 0) then 1 else 0),
          AFloat (float_add L cx (float_mul L r c2)),
          AFloat (float_add L cy (float_mul L r s2))]))))"

definition circle_sector ::
  "pylib \<Rightarrow> pyfloat \<Rightarrow> pyfloat \<Rightarrow> pyfloat \<Rightarrow> pyfloat \<Rightarrow> pyfloat \<Rightarrow> kwargs \<Rightarrow> builder
     \<Rightarrow> error + builder" where
  "circle_sector L cx cy r alpha theta extras b =
     bindE (bind_kwargs [''self'', ''cx'', ''cy'', ''r'', ''alpha'', ''theta''] extras) (\<lambda>kwargs.
     bindE (circle_sector_d L cx cy r alpha theta) (\<lambda>d.
     bindE (merge_kwargs [(''d'', PStr d)] kwargs) (\<lambda>kws.
       item ''path'' kws b)))"

text \<open>
  \<^verbatim>\<open>
  def defs(self):
      self.start('defs')
      return _SVGGroup(self, 'defs')
  \<close>
  \<^verbatim>\<open>start\<close> is called with the tag alone, so the call raises and the \<^verbatim>\<open>return\<close> is not
  reached.
\<close>

definition defs :: "builder \<Rightarrow> error + SVGGroup \<times> builder" where
  "defs b =
     bindE (call_start ''defs'' None b) (\<lambda>b1.
       Inr (SVGGroup_init ''defs'', b1))"

text \<open>
  \<^verbatim>\<open>
  def g(self, **kwargs):
      self.start('g', _fix_attrs(**kwargs))
      return _SVGGroup(self, 'g')
  \<close>
\<close>

definition g :: "kwargs \<Rightarrow> builder \<Rightarrow> error + SVGGroup \<times> builder" where
  "g extras b =
     bindE (bind_kwargs [''self''] extras) (\<lambda>kwargs.
     bindE (fix_attrs kwargs) (\<lambda>attrs.
       Inr (SVGGroup_init ''g'', tb_start ''g'' attrs b)))"

text \<open>\<^verbatim>\<open>self.item('line', x1=x1, y1=y1, x2=x2, y2=y2, **kwargs)\<close>\<close>

definition line ::
  "pyval \<Rightarrow> pyval \<Rightarrow> pyval \<Rightarrow> pyval \<Rightarrow> kwargs \<Rightarrow> builder \<Rightarrow> error + builder" where
  "line x1 y1 x2 y2 extras b =
     bindE (bind_kwargs [''self'', ''x1'', ''y1'', ''x2'', ''y2''] extras) (\<lambda>kwargs.
     bindE (merge_kwargs [(''x1'', x1), (''y1'', y1), (''x2'', x2), (''y2'', y2)] kwargs) (\<lambda>kws.
       item ''line'' kws b))"

text \<open>\<^verbatim>\<open>self.item('rect', x=x, y=y, width=w, height=h, **kwargs)\<close>\<close>

definition rect ::
  "pyval \<Rightarrow> pyval \<Rightarrow> pyval \<Rightarrow> pyval \<Rightarrow> kwargs \<Rightarrow> builder \<Rightarrow> error + builder" where
  "rect x y w h extras b =
     bindE (bind_kwargs [''self'', ''x'', ''y'', ''w'', ''h''] extras) (\<lambda>kwargs.
     bindE (merge_kwargs [(''x'', x), (''y'', y), (''width'', w), (''height'', h)] kwargs) (\<lambda>kws.
       item ''rect'' kws b))"

text \<open>
  \<^verbatim>\<open>
  def text(self, text, x, y, **kwargs):
      self.start('text', _fix_attrs(x=x, y=y, **kwargs))
      self.data(text)
      self.end('text')
  \<close>
  (\<open>text\<close> is a keyword of Isabelle, hence the suffix.)
\<close>

definition text_shape :: "string \<Rightarrow> pyval \<Rightarrow> pyval \<Rightarrow> kwargs \<Rightarrow> builder \<Rightarrow> error + builder" where
  "text_shape txt x y extras b =
     bindE (bind_kwargs [''self'', ''text'', ''x'', ''y''] extras) (\<lambda>kwargs.
     bindE (merge_kwargs [(''x'', x), (''y'', y)] kwargs) (\<lambda>kws.
     bindE (fix_attrs kws) (\<lambda>attrs.
       tb_end ''text'' (tb_data txt (tb_start ''text'' attrs b)))))"

text \<open>
  \<^verbatim>\<open>
  def text_group(self, x, y, **kwargs):
      self.start('text', _fix_attrs(x=x, y=y, **kwargs))
      return _SVGGroup(self, 'text')
  \<close>
\<close>

definition text_group :: "pyval \<Rightarrow> pyval \<Rightarrow> kwargs \<Rightarrow> builder \<Rightarrow> error + SVGGroup \<times> builder" where
  "text_group x y extras b =
     bindE (bind_kwargs [''self'', ''x'', ''y''] extras) (\<lambda>kwargs.
     bindE (merge_kwargs [(''x'', x), (''y'', y)] kwargs) (\<lambda>kws.
     bindE (fix_attrs kws) (\<lambda>attrs.
       Inr (SVGGroup_init ''text'', tb_start ''text'' attrs b))))"

text \<open>
  \<^verbatim>\<open>
  def write(self, file_or_name, encoding='UTF-8', xml_decl=True):
      print('Writing SVG to', file_or_name)
      self.end('svg')
      data = self.close()
      tree = ET.ElementTree(data)
      tree.write(file_or_name, encoding, xml_decl)
  \<close>
  The serialiser is the standard library's. \<open>write_svg\<close> (\<open>write\<close> is a keyword of
  Isabelle) returns what it hands to it: the
  tree, the destination, the encoding and whether an XML declaration is asked for. The
  line printed to standard output does not touch the builder and is left out.
\<close>

record document =
  tree :: node
  destination :: string
  encoding :: string
  xml_declaration :: bool

definition write_svg :: "string \<Rightarrow> string \<Rightarrow> bool \<Rightarrow> builder \<Rightarrow> error + document" where
  "write_svg file_or_name enc xml_decl b =
     bindE (tb_end ''svg'' b) (\<lambda>b1.
     bindE (tb_close b1) (\<lambda>data.
       Inr \<lparr>tree = data, destination = file_or_name, encoding = enc,
            xml_declaration = xml_decl\<rparr>))"

subsection \<open>The sector path in the words of the spec\<close>


definition flag :: "bool \<Rightarrow> string" where
  "flag c = (if c then ''1'' else ''0'')"




text \<open>
  Fixed-point notation with six digits after the point: an optional minus sign, one digit
  or more, a point, six digits.
\<close>

definition fixed6 :: "string \<Rightarrow> bool" where
  "fixed6 s =
     (let t = (if s \<noteq> [] \<and> hd s = CHR ''-'' then tl s else s);
          ip = takeWhile is_digit t;
          rest = dropWhile is_digit t
      in ip \<noteq> [] \<and> rest \<noteq> [] \<and> hd rest = CHR ''.'' \<and> length (tl rest) = 6
           \<and> list_all is_digit (tl rest))"

subsection \<open>Arithmetic for the examples\<close>

text \<open>
  The examples below need a \<open>pylib\<close> to run on. \<open>example_lib\<close> adds and multiplies
  exactly, which is what IEEE arithmetic returns whenever the exact result is a double, as
  it is in the examples. Its cosine and sine hold the values of \<^verbatim>\<open>math.cos\<close> and
  \<^verbatim>\<open>math.sin\<close> at \<open>0.0\<close> and at \<^verbatim>\<open>math.pi / 2\<close> (\<^verbatim>\<open>math.cos(math.pi / 2)\<close> is
  \<open>6.123233995736766e-17\<close>), the NaN for a NaN and the \<^verbatim>\<open>ValueError\<close> for an infinity;
  at any other argument it is no model of them and raises as well. The theorems hold for
  every \<open>pylib\<close>; only the examples use this one.
\<close>

fun exact_add :: "pyfloat \<Rightarrow> pyfloat \<Rightarrow> pyfloat" where
  "exact_add NaN y = NaN"
| "exact_add x NaN = NaN"
| "exact_add (Infinity s) (Infinity t) = (if s = t then Infinity s else NaN)"
| "exact_add (Infinity s) (Finite t n f) = Infinity s"
| "exact_add (Finite s m e) (Infinity t) = Infinity t"
| "exact_add (Finite s m e) (Finite t n f) =
     (let v = scaled (min e f) s m e + scaled (min e f) t n f
      in Finite (v < 0 \<or> (v = 0 \<and> s \<and> t)) (nat \<bar>v\<bar>) (min e f))"

fun exact_mul :: "pyfloat \<Rightarrow> pyfloat \<Rightarrow> pyfloat" where
  "exact_mul NaN y = NaN"
| "exact_mul x NaN = NaN"
| "exact_mul (Infinity s) (Infinity t) = Infinity (s \<noteq> t)"
| "exact_mul (Infinity s) (Finite t n f) = (if n = 0 then NaN else Infinity (s \<noteq> t))"
| "exact_mul (Finite s m e) (Infinity t) = (if m = 0 then NaN else Infinity (s \<noteq> t))"
| "exact_mul (Finite s m e) (Finite t n f) = Finite (s \<noteq> t) (m * n) (e + f)"

fun example_cos :: "pyfloat \<Rightarrow> error + pyfloat" where
  "example_cos NaN = Inr NaN"
| "example_cos (Infinity s) = Inl ValueError"
| "example_cos (Finite s m e) =
     (if m = 0 then Inr (Finite False 1 0)
      else if \<not> s \<and> m = 884279719003555 \<and> e = - 49 then Inr (Finite False 4967757600021511 (- 106))
      else Inl ValueError)"

fun example_sin :: "pyfloat \<Rightarrow> error + pyfloat" where
  "example_sin NaN = Inr NaN"
| "example_sin (Infinity s) = Inl ValueError"
| "example_sin (Finite s m e) =
     (if m = 0 then Inr (Finite s 0 e)
      else if \<not> s \<and> m = 884279719003555 \<and> e = - 49 then Inr (Finite False 1 0)
      else Inl ValueError)"

definition example_lib :: pylib where
  "example_lib =
     \<lparr>float_add = exact_add, float_mul = exact_mul, math_cos = example_cos, math_sin = example_sin\<rparr>"

text \<open>A builder as the constructor leaves it, with no attribute and no comment, for the examples.\<close>

definition example_builder :: builder where
  "example_builder = \<lparr>stack = [\<lparr>ftag = ''svg'', fattrs = [], fchildren = []\<rparr>], root = None\<rparr>"

text \<open>A builder with a \<open>g\<close> open inside the root and a child already in each, for the examples.\<close>

definition nested_builder :: builder where
  "nested_builder =
     \<lparr>stack = [\<lparr>ftag = ''g'', fattrs = [(''id'', ''a'')], fchildren = [Element ''line'' [] []]\<rparr>,
               \<lparr>ftag = ''svg'', fattrs = [], fchildren = [Comment ''c'']\<rparr>],
      root = None\<rparr>"

subsection \<open>Reading the builder\<close>

text \<open>The elements that are open, by tag and attributes, innermost first.\<close>

definition open_elements :: "builder \<Rightarrow> (string \<times> attrs) list" where
  "open_elements b = map (\<lambda>fr. (ftag fr, fattrs fr)) (stack b)"

text \<open>
  \<open>with_child b el\<close> is the builder \<open>b\<close> with \<open>el\<close> added as the last child of the innermost
  open element and nothing else changed. It is written out on the fields, apart from the
  functions of the model. When no element is open there is none to add it to, and \<open>el\<close>
  is kept as the root that was closed last.
\<close>

abbreviation with_child :: "builder \<Rightarrow> node \<Rightarrow> builder" where
  "with_child b el \<equiv>
     (case stack b of
        [] \<Rightarrow> \<lparr>stack = [], root = Some el\<rparr>
      | fr # frs \<Rightarrow>
          \<lparr>stack = \<lparr>ftag = ftag fr, fattrs = fattrs fr, fchildren = fchildren fr @ [el]\<rparr> # frs,
           root = root b\<rparr>)"

section \<open>Properties\<close>

subsection \<open>Results and keyword arguments\<close>

lemma bindE_simps [simp]:
  "bindE (Inl e) f = Inl e"
  "bindE (Inr x) f = f x"
  by (simp_all add: bindE_def)

lemma bind_kwargs_Inr: "bind_kwargs ps kws = Inr kw \<longleftrightarrow> kw = kws \<and> set (keys kws) \<inter> set ps = {}"
  by (auto simp: bind_kwargs_def list_ex_iff)

lemma bind_kwargs_Inl: "bind_kwargs ps kws = Inl e \<longleftrightarrow> e = TypeError \<and> set (keys kws) \<inter> set ps \<noteq> {}"
  by (auto simp: bind_kwargs_def list_ex_iff)

lemma merge_kwargs_Inr:
  "merge_kwargs ex star = Inr kw \<longleftrightarrow> kw = ex @ star \<and> distinct (keys (ex @ star))"
  by (auto simp: merge_kwargs_def)

lemma merge_kwargs_Inl:
  "merge_kwargs ex star = Inl e \<longleftrightarrow> e = TypeError \<and> \<not> distinct (keys (ex @ star))"
  by (auto simp: merge_kwargs_def)

lemma bindE_Inr_iff: "bindE r f = Inr y \<longleftrightarrow> (\<exists>x. r = Inr x \<and> f x = Inr y)"
  by (cases r) simp_all

subsection \<open>Closing: end, the group handle, write\<close>

lemma tb_end_empty: "stack b = [] \<Longrightarrow> tb_end tag b = Inl (EndTagMismatch None tag)"
  by (simp add: tb_end_def)

lemma tb_end_mismatch:
  "stack b = fr # frs \<Longrightarrow> ftag fr \<noteq> tag \<Longrightarrow>
   tb_end tag b = Inl (EndTagMismatch (Some (ftag fr)) tag)"
  by (simp add: tb_end_def)

lemma tb_end_Inr_iff:
  "(\<exists>b'. tb_end tag b = Inr b') \<longleftrightarrow> (stack b \<noteq> [] \<and> ftag (hd (stack b)) = tag)"
  by (cases "stack b") (auto simp: tb_end_def split: list.splits)


text \<open>
  Claim C5. With the root \<open>svg\<close> as the only open element, \<open>write_svg\<close> closes it and hands
  the serialiser the finished tree with the destination, the encoding and the choice of an
  XML declaration it was given. With a further element open it fails: with the tag
  mismatch when the innermost open element is not an \<open>svg\<close>, and in any case with an
  error; nothing is handed to the serialiser and no nested element is closed for the
  caller.
\<close>

theorem write_closes_root:
  "(stack b = [fr] \<and> ftag fr = ''svg'' \<longrightarrow>
      write_svg dest enc decl b
        = Inr \<lparr>tree = Element ''svg'' (fattrs fr) (fchildren fr), destination = dest,
                encoding = enc, xml_declaration = decl\<rparr>)
   \<and> (stack b = fr # p # frs \<and> ftag fr \<noteq> ''svg'' \<longrightarrow>
      write_svg dest enc decl b = Inl (EndTagMismatch (Some (ftag fr)) ''svg''))
   \<and> (2 \<le> length (stack b) \<longrightarrow> (\<exists>e. write_svg dest enc decl b = Inl e))"
proof -
  have w1: "stack b = [fr] \<and> ftag fr = ''svg'' \<longrightarrow>
      write_svg dest enc decl b
        = Inr \<lparr>tree = Element ''svg'' (fattrs fr) (fchildren fr), destination = dest,
                encoding = enc, xml_declaration = decl\<rparr>"
    by (auto simp: write_svg_def tb_end_def tb_close_def frame_node_def)
  have w2: "stack b = fr # p # frs \<and> ftag fr \<noteq> ''svg'' \<longrightarrow>
      write_svg dest enc decl b = Inl (EndTagMismatch (Some (ftag fr)) ''svg'')"
    by (auto simp: write_svg_def tb_end_def)
  have w3: "2 \<le> length (stack b) \<longrightarrow> (\<exists>e. write_svg dest enc decl b = Inl e)"
  proof
    assume "2 \<le> length (stack b)"
    then obtain f1 f2 rest where st: "stack b = f1 # f2 # rest"
      by (cases "stack b"; cases "tl (stack b)") auto
    show "\<exists>e. write_svg dest enc decl b = Inl e"
    proof (cases "ftag f1 = ''svg''")
      case True
      then show ?thesis using st
        by (simp add: write_svg_def tb_end_def tb_close_def append_child_def)
    next
      case False
      then show ?thesis using st by (simp add: write_svg_def tb_end_def)
    qed
  qed
  show ?thesis by (intro conjI w1 w2 w3)
qed

theorem write_closes_root_witness:
  "write_svg ''out.svg'' ''UTF-8'' True example_builder
     = Inr \<lparr>tree = Element ''svg'' [] [], destination = ''out.svg'', encoding = ''UTF-8'',
             xml_declaration = True\<rparr>
   \<and> write_svg ''out.svg'' ''UTF-8'' True (tb_start ''g'' [] example_builder)
     = Inl (EndTagMismatch (Some ''g'') ''svg'')
   \<and> 2 \<le> length (stack (tb_start ''g'' [] example_builder))"
  using write_closes_root [of example_builder "\<lparr>ftag = ''svg'', fattrs = [], fchildren = []\<rparr>"
      "''out.svg''" "''UTF-8''" True]
    write_closes_root [of "tb_start ''g'' [] example_builder"
      "\<lparr>ftag = ''g'', fattrs = [], fchildren = []\<rparr>" "''out.svg''" "''UTF-8''" True
      "\<lparr>ftag = ''svg'', fattrs = [], fchildren = []\<rparr>" "[]"]
  by (simp add: example_builder_def tb_start_def)

text \<open>
  Claim C4, amended. \<^verbatim>\<open>end\<close> with nothing open, or with a tag that is not the tag of the
  innermost open element, raises the error that names the expected and the actual tag.
  Closing a group handle a second time raises exactly when, after the first close, nothing
  is open or the innermost open element has another tag than the handle's.
\<close>

theorem end_mismatch_raises:
  "(stack b = [] \<longrightarrow> tb_end tag b = Inl (EndTagMismatch None tag))
   \<and> (stack b = fr # frs \<and> ftag fr \<noteq> tag \<longrightarrow>
        tb_end tag b = Inl (EndTagMismatch (Some (ftag fr)) tag))
   \<and> (SVGGroup_exit h b = Inr b1 \<longrightarrow>
        ((\<exists>e. SVGGroup_exit h b1 = Inl e)
           \<longleftrightarrow> (stack b1 = [] \<or> ftag (hd (stack b1)) \<noteq> group_tag h))
        \<and> (stack b1 = [] \<longrightarrow> SVGGroup_exit h b1 = Inl (EndTagMismatch None (group_tag h)))
        \<and> (stack b1 \<noteq> [] \<and> ftag (hd (stack b1)) \<noteq> group_tag h \<longrightarrow>
              SVGGroup_exit h b1
                = Inl (EndTagMismatch (Some (ftag (hd (stack b1)))) (group_tag h))))"
proof -
  have e1: "stack b = [] \<longrightarrow> tb_end tag b = Inl (EndTagMismatch None tag)"
    by (simp add: tb_end_empty)
  have e2: "stack b = fr # frs \<and> ftag fr \<noteq> tag \<longrightarrow>
        tb_end tag b = Inl (EndTagMismatch (Some (ftag fr)) tag)"
    by (simp add: tb_end_mismatch)
  have iff: "(\<exists>e. SVGGroup_exit h b1 = Inl e)
           \<longleftrightarrow> (stack b1 = [] \<or> ftag (hd (stack b1)) \<noteq> group_tag h)"
    using tb_end_Inr_iff [of "group_tag h" b1]
    by (cases "tb_end (group_tag h) b1") (auto simp: SVGGroup_exit_def)
  have e3: "SVGGroup_exit h b = Inr b1 \<longrightarrow>
        ((\<exists>e. SVGGroup_exit h b1 = Inl e)
           \<longleftrightarrow> (stack b1 = [] \<or> ftag (hd (stack b1)) \<noteq> group_tag h))
        \<and> (stack b1 = [] \<longrightarrow> SVGGroup_exit h b1 = Inl (EndTagMismatch None (group_tag h)))
        \<and> (stack b1 \<noteq> [] \<and> ftag (hd (stack b1)) \<noteq> group_tag h \<longrightarrow>
              SVGGroup_exit h b1
                = Inl (EndTagMismatch (Some (ftag (hd (stack b1)))) (group_tag h)))"
    using iff by (cases "stack b1") (auto simp: SVGGroup_exit_def tb_end_def)
  show ?thesis by (intro conjI e1 e2 e3)
qed

theorem end_mismatch_raises_witness:
  "tb_end ''g'' (TreeBuilder_init) = Inl (EndTagMismatch None ''g'')
   \<and> tb_end ''g'' example_builder = Inl (EndTagMismatch (Some ''svg'') ''g'')
   \<and> SVGGroup_exit (SVGGroup_init ''g'') (tb_start ''g'' [] example_builder)
       = Inr (append_child (Element ''g'' [] []) example_builder)
   \<and> SVGGroup_exit (SVGGroup_init ''g'') (append_child (Element ''g'' [] []) example_builder)
       = Inl (EndTagMismatch (Some ''svg'') ''g'')"
  using end_mismatch_raises [of TreeBuilder_init "''g''"]
    end_mismatch_raises [of "tb_start ''g'' [] example_builder" "''g''"
      "\<lparr>ftag = ''svg'', fattrs = [], fchildren = []\<rparr>" "[]" "SVGGroup_init ''g''"
      "append_child (Element ''g'' [] []) example_builder"]
  by (simp add: example_builder_def tb_start_def tb_end_def TreeBuilder_init_def
      SVGGroup_exit_def SVGGroup_init_def append_child_def frame_node_def)

text \<open>
  A second close does not always raise: the handle of a \<open>g\<close> opened directly inside another
  \<open>g\<close>, closed twice, closes the outer \<open>g\<close> as well and returns; the tree then holds the
  outer \<open>g\<close> with the inner one, closed, under the root.
\<close>

theorem double_close_counterexample:
  "bindE (g [] example_builder) (\<lambda>(h1, b1).
   bindE (g [] b1) (\<lambda>(h2, b2).
   bindE (SVGGroup_exit h2 b2) (\<lambda>b3.
     SVGGroup_exit h2 b3)))
   = Inr (append_child (Element ''g'' [] [Element ''g'' [] []]) example_builder)"
  by (simp add: g_def bind_kwargs_def keys_def fix_attrs_def example_builder_def tb_start_def
      tb_end_def SVGGroup_exit_def SVGGroup_init_def append_child_def frame_node_def)

subsection \<open>The attribute normaliser\<close>

lemma dict_set_fresh: "k \<notin> fst ` set d \<Longrightarrow> dict_set k v d = d @ [(k, v)]"
  by (induction d) auto

lemma map_of_dict_set: "map_of (dict_set k v d) = (map_of d)(k \<mapsto> v)"
  by (induction d) (auto simp: fun_eq_iff)

lemma replace_char_inj:
  "replace_char CHR ''_'' CHR ''-'' a = replace_char CHR ''_'' CHR ''-'' b \<Longrightarrow>
   CHR ''-'' \<notin> set a \<Longrightarrow> CHR ''-'' \<notin> set b \<Longrightarrow> a = b"
proof (induction a arbitrary: b)
  case Nil
  then show ?case by (simp add: replace_char_def)
next
  case (Cons c cs)
  then obtain d ds where b: "b = d # ds"
    by (cases b) (auto simp: replace_char_def)
  from Cons.prems b have "c = d"
    by (auto simp: replace_char_def split: if_splits)
  moreover from Cons.prems b have "cs = ds"
    by (intro Cons.IH) (auto simp: replace_char_def)
  ultimately show ?case using b by simp
qed

lemma replace_char_hyphen_free:
  "replace_char CHR ''_'' CHR ''-'' k = t \<Longrightarrow> CHR ''-'' \<notin> set t \<Longrightarrow> k = t"
  by (induction k arbitrary: t) (auto simp: replace_char_def split: if_splits)

lemma replace_char_plain:
  "CHR ''_'' \<notin> set n \<Longrightarrow> replace_char CHR ''_'' CHR ''-'' n = n"
  by (induction n) (auto simp: replace_char_def)

lemma fix_attrs_loop_Inr:
  "distinct (map fst kw) \<Longrightarrow> \<forall>k \<in> fst ` set kw. CHR ''-'' \<notin> set k \<Longrightarrow>
   \<forall>k \<in> fst ` set kw. replace_char CHR ''_'' CHR ''-'' k \<notin> fst ` set acc \<Longrightarrow>
   fix_attrs_loop acc kw = Inr attrs \<longleftrightarrow>
     (\<exists>new. attrs = acc @ new
        \<and> list_all2 (\<lambda>kv a. fst a = replace_char CHR ''_'' CHR ''-'' (fst kv)
                         \<and> py_str (snd kv) = Inr (snd a)) kw new)"
proof (induction kw arbitrary: acc)
  case Nil
  then show ?case by auto
next
  case (Cons p kw)
  obtain k v where p: "p = (k, v)" by (cases p)
  show ?case
  proof (cases "py_str v")
    case (Inl e)
    then show ?thesis using p by (auto simp: list_all2_Cons1)
  next
    case (Inr s)
    let ?acc = "acc @ [(replace_char CHR ''_'' CHR ''-'' k, s)]"
    have fresh: "replace_char CHR ''_'' CHR ''-'' k \<notin> fst ` set acc"
      using Cons.prems(3) p by simp
    have step: "dict_set (replace_char CHR ''_'' CHR ''-'' k) s acc = ?acc"
      using fresh by (rule dict_set_fresh)
    have fresh': "\<forall>k' \<in> fst ` set kw. replace_char CHR ''_'' CHR ''-'' k' \<notin> fst ` set ?acc"
    proof
      fix k' assume k': "k' \<in> fst ` set kw"
      have "k' \<noteq> k" using Cons.prems(1) p k' by auto
      moreover have "CHR ''-'' \<notin> set k'" "CHR ''-'' \<notin> set k"
        using Cons.prems(2) p k' by auto
      ultimately have "replace_char CHR ''_'' CHR ''-'' k' \<noteq> replace_char CHR ''_'' CHR ''-'' k"
        using replace_char_inj by blast
      moreover have "replace_char CHR ''_'' CHR ''-'' k' \<notin> fst ` set acc"
        using Cons.prems(3) k' by auto
      ultimately show "replace_char CHR ''_'' CHR ''-'' k' \<notin> fst ` set ?acc"
        by auto
    qed
    have dist: "distinct (map fst kw)" and hyph: "\<forall>k \<in> fst ` set kw. CHR ''-'' \<notin> set k"
      using Cons.prems by auto
    note IH = Cons.IH [OF dist hyph fresh']
    have "fix_attrs_loop acc (p # kw) = fix_attrs_loop ?acc kw"
      using p Inr step by simp
    then show ?thesis
      using IH p Inr by (auto simp: list_all2_Cons1)
  qed
qed

lemma fix_attrs_loop_Inl:
  "fix_attrs_loop acc kw = Inl e \<longleftrightarrow>
     (\<exists>pre kv post. kw = pre @ kv # post
        \<and> list_all (\<lambda>p. \<exists>s. py_str (snd p) = Inr s) pre \<and> py_str (snd kv) = Inl e)"
proof (induction kw arbitrary: acc)
  case Nil
  then show ?case by simp
next
  case (Cons p kw)
  obtain k v where p: "p = (k, v)" by (cases p)
  show ?case
  proof (cases "py_str v")
    case (Inl e')
    have "(\<exists>pre kv post. p # kw = pre @ kv # post
        \<and> list_all (\<lambda>p. \<exists>s. py_str (snd p) = Inr s) pre \<and> py_str (snd kv) = Inl e) \<longleftrightarrow> e = e'"
    proof
      assume "\<exists>pre kv post. p # kw = pre @ kv # post
        \<and> list_all (\<lambda>p. \<exists>s. py_str (snd p) = Inr s) pre \<and> py_str (snd kv) = Inl e"
      then obtain pre kv post where eq: "p # kw = pre @ kv # post"
        and pre: "list_all (\<lambda>p. \<exists>s. py_str (snd p) = Inr s) pre" and kv: "py_str (snd kv) = Inl e"
        by blast
      show "e = e'"
      proof (cases pre)
        case Nil
        then show ?thesis using eq kv p Inl by auto
      next
        case (Cons q qs)
        then show ?thesis using eq pre p Inl by auto
      qed
    next
      assume "e = e'"
      then have "p # kw = [] @ p # kw \<and> list_all (\<lambda>p. \<exists>s. py_str (snd p) = Inr s) []
          \<and> py_str (snd p) = Inl e"
        using p Inl by simp
      then show "\<exists>pre kv post. p # kw = pre @ kv # post
        \<and> list_all (\<lambda>p. \<exists>s. py_str (snd p) = Inr s) pre \<and> py_str (snd kv) = Inl e"
        by blast
    qed
    then show ?thesis using p Inl by auto
  next
    case (Inr s)
    have "(\<exists>pre kv post. p # kw = pre @ kv # post
        \<and> list_all (\<lambda>p. \<exists>s. py_str (snd p) = Inr s) pre \<and> py_str (snd kv) = Inl e)
      \<longleftrightarrow> (\<exists>pre kv post. kw = pre @ kv # post
        \<and> list_all (\<lambda>p. \<exists>s. py_str (snd p) = Inr s) pre \<and> py_str (snd kv) = Inl e)"
    proof
      assume "\<exists>pre kv post. p # kw = pre @ kv # post
        \<and> list_all (\<lambda>p. \<exists>s. py_str (snd p) = Inr s) pre \<and> py_str (snd kv) = Inl e"
      then obtain pre kv post where eq: "p # kw = pre @ kv # post"
        and pre: "list_all (\<lambda>p. \<exists>s. py_str (snd p) = Inr s) pre" and kv: "py_str (snd kv) = Inl e"
        by blast
      show "\<exists>pre kv post. kw = pre @ kv # post
        \<and> list_all (\<lambda>p. \<exists>s. py_str (snd p) = Inr s) pre \<and> py_str (snd kv) = Inl e"
      proof (cases pre)
        case Nil
        then show ?thesis using eq kv p Inr by auto
      next
        case (Cons q qs)
        then have "kw = qs @ kv # post" "list_all (\<lambda>p. \<exists>s. py_str (snd p) = Inr s) qs"
          using eq pre by auto
        with kv show ?thesis by blast
      qed
    next
      assume "\<exists>pre kv post. kw = pre @ kv # post
        \<and> list_all (\<lambda>p. \<exists>s. py_str (snd p) = Inr s) pre \<and> py_str (snd kv) = Inl e"
      then obtain pre kv post where eq: "kw = pre @ kv # post"
        and pre: "list_all (\<lambda>p. \<exists>s. py_str (snd p) = Inr s) pre" and kv: "py_str (snd kv) = Inl e"
        by blast
      have "p # kw = (p # pre) @ kv # post"
        "list_all (\<lambda>p. \<exists>s. py_str (snd p) = Inr s) (p # pre)"
        using eq pre p Inr by simp_all
      with kv show "\<exists>pre kv post. p # kw = pre @ kv # post
        \<and> list_all (\<lambda>p. \<exists>s. py_str (snd p) = Inr s) pre \<and> py_str (snd kv) = Inl e"
        by blast
    qed
    then show ?thesis using p Inr Cons.IH by simp
  qed
qed

text \<open>
  Claim C3, amended. For kwargs with identifier keys (an identifier holds no hyphen; the
  keys of a dict are distinct), \<open>fix_attrs\<close> returns a mapping exactly when \<^verbatim>\<open>str\<close> of every
  value returns, and the mapping then holds, entry by entry and in the same order, the key
  with every underscore replaced by a hyphen and \<^verbatim>\<open>str\<close> of the value; the replacement
  keeps the length of a key and changes exactly the underscores, however many there are.
  When \<^verbatim>\<open>str\<close> of a value raises, \<open>fix_attrs\<close> raises the error of the first such value
  and returns no mapping.
\<close>

theorem fix_attrs_normalises:
  assumes "distinct (keys kwargs)"
    and "\<forall>key \<in> set (keys kwargs). CHR ''-'' \<notin> set key"
  shows "(fix_attrs kwargs = Inr attrs \<longleftrightarrow>
            list_all2 (\<lambda>kv a. fst a = replace_char CHR ''_'' CHR ''-'' (fst kv)
                             \<and> py_str (snd kv) = Inr (snd a)) kwargs attrs)
       \<and> (fix_attrs kwargs = Inl e \<longleftrightarrow>
            (\<exists>pre kv post. kwargs = pre @ kv # post
               \<and> list_all (\<lambda>p. \<exists>s. py_str (snd p) = Inr s) pre \<and> py_str (snd kv) = Inl e))
       \<and> (\<forall>key. length (replace_char CHR ''_'' CHR ''-'' key) = length key
            \<and> (\<forall>i < length key. replace_char CHR ''_'' CHR ''-'' key ! i
                  = (if key ! i = CHR ''_'' then CHR ''-'' else key ! i)))"
proof -
  have "fix_attrs kwargs = Inr attrs \<longleftrightarrow>
      (\<exists>new. attrs = [] @ new
        \<and> list_all2 (\<lambda>kv a. fst a = replace_char CHR ''_'' CHR ''-'' (fst kv)
                         \<and> py_str (snd kv) = Inr (snd a)) kwargs new)"
    unfolding fix_attrs_def using assms
    by (intro fix_attrs_loop_Inr) (auto simp: keys_def)
  then show ?thesis
    by (simp add: fix_attrs_def fix_attrs_loop_Inl replace_char_def)
qed

lemmas str_defs = int_max_str_digits_def str_int_def str_nat.simps digit_def

theorem fix_attrs_normalises_witness:
  "distinct (keys [(''stroke_width'', PInt 2), (''a_b_c'', PStr ''x'')])
   \<and> list_all (\<lambda>key. CHR ''-'' \<notin> set key) (keys [(''stroke_width'', PInt 2), (''a_b_c'', PStr ''x'')])
   \<and> fix_attrs [(''stroke_width'', PInt 2), (''a_b_c'', PStr ''x'')]
       = Inr [(''stroke-width'', ''2''), (''a-b-c'', ''x'')]
   \<and> fix_attrs [(''a'', PInt 1), (''stroke_width'', PObj (Inl ValueError)), (''c'', PObj (Inl TypeError))]
       = Inl ValueError"
  using fix_attrs_normalises [of "[(''stroke_width'', PInt 2), (''a_b_c'', PStr ''x'')]"
      "[(''stroke-width'', ''2''), (''a-b-c'', ''x'')]" ValueError]
  by (simp add: keys_def replace_char_def fix_attrs_def str_defs)

text \<open>
  Not every mapping is normalised: for a value whose \<^verbatim>\<open>__str__\<close> raises \<^verbatim>\<open>ValueError\<close> the
  normaliser raises it.
\<close>

theorem fix_attrs_raises_counterexample:
  "fix_attrs [(''stroke_width'', PObj (Inl ValueError))] = Inl ValueError"
  by (simp add: fix_attrs_def)

subsection \<open>The constructor\<close>

lemma map_of_fix_attrs_loop:
  "fix_attrs_loop acc kw = Inr attrs \<Longrightarrow> distinct (map fst kw) \<Longrightarrow>
   CHR ''-'' \<notin> set n \<Longrightarrow> CHR ''_'' \<notin> set n \<Longrightarrow>
   (case map_of kw n of
      None \<Rightarrow> map_of attrs n = map_of acc n
    | Some v \<Rightarrow> (\<exists>s. py_str v = Inr s \<and> map_of attrs n = Some s))"
proof (induction kw arbitrary: acc)
  case Nil
  then show ?case by simp
next
  case (Cons p kw)
  obtain k v where p: "p = (k, v)" by (cases p)
  from Cons.prems(1) p obtain s where s: "py_str v = Inr s"
    and loop: "fix_attrs_loop (dict_set (replace_char CHR ''_'' CHR ''-'' k) s acc) kw = Inr attrs"
    by (auto simp: bindE_Inr_iff)
  have dist: "distinct (map fst kw)" and notin: "k \<notin> fst ` set kw"
    using Cons.prems(2) p by auto
  note IH = Cons.IH [OF loop dist Cons.prems(3) Cons.prems(4)]
  show ?case
  proof (cases "k = n")
    case True
    have none: "map_of kw n = None"
      using notin True by (simp add: map_of_eq_None_iff)
    have "replace_char CHR ''_'' CHR ''-'' n = n"
      using Cons.prems(4) by (rule replace_char_plain)
    then show ?thesis
      using IH p True none s by (simp add: map_of_dict_set)
  next
    case False
    have "replace_char CHR ''_'' CHR ''-'' k \<noteq> n"
      using replace_char_hyphen_free [of k n] Cons.prems(3) False by blast
    then show ?thesis
      using IH p False by (simp add: map_of_dict_set split: option.splits)
  qed
qed

lemma fix_attrs_geometry:
  "fix_attrs kws = Inr attrs \<Longrightarrow> distinct (keys kws) \<Longrightarrow> (n, v) \<in> set kws \<Longrightarrow>
   CHR ''-'' \<notin> set n \<Longrightarrow> CHR ''_'' \<notin> set n \<Longrightarrow>
   \<exists>s. py_str v = Inr s \<and> map_of attrs n = Some s"
  using map_of_fix_attrs_loop [of "[]" kws attrs n]
  by (simp add: fix_attrs_def keys_def)

lemmas model_defs =
  bind_kwargs_def merge_kwargs_def keys_def fix_attrs_def replace_char_def str_defs
  tb_start_def tb_end_def tb_data_def tb_close_def append_child_def frame_node_def
  TreeBuilder_init_def example_builder_def nested_builder_def open_elements_def

text \<open>
  Claim C6. The builder made with width 100 and height 50 and written at once hands the
  serialiser one root element \<open>svg\<close> with the attributes \<open>xmlns\<close>, \<open>version = 1.1\<close>,
  \<open>width = 100\<close> and \<open>height = 50\<close>, whose only child is one comment, the text
  \<^verbatim>\<open>vbl-stats svg generated at \<close> followed by the timestamp.
\<close>

theorem init_then_write:
  "bindE (SVGBuilder_init (PInt 100) (PInt 50) [] now) (write_svg dest enc decl)
     = Inr \<lparr>tree = Element ''svg''
                [(''xmlns'', ''http://www.w3.org/2000/svg''), (''version'', ''1.1''),
                 (''width'', ''100''), (''height'', ''50'')]
                [Comment (''vbl-stats svg generated at '' @ now)],
             destination = dest, encoding = enc, xml_declaration = decl\<rparr>"
  by (simp add: SVGBuilder_init_def write_svg_def model_defs)

text \<open>
  Claim C10. An extra attribute named \<open>xmlns\<close> or \<open>version\<close> makes the constructor raise
  \<^verbatim>\<open>TypeError\<close> (the keyword is given twice). When the constructor returns, the root has
  the fixed \<open>xmlns\<close> and \<open>version\<close>, and a width or height that is not \<^verbatim>\<open>None\<close> is set
  after the normalised extras and appears with \<^verbatim>\<open>str\<close> of the value given.
\<close>

theorem init_fixed_attrs:
  "((''xmlns'' \<in> set (keys extras) \<or> ''version'' \<in> set (keys extras))
      \<longrightarrow> SVGBuilder_init width height extras now = Inl TypeError)
   \<and> (SVGBuilder_init width height extras now = Inr b \<longrightarrow>
        (\<exists>attrs. b = \<lparr>stack = [\<lparr>ftag = ''svg'', fattrs = attrs,
                                  fchildren = [Comment (''vbl-stats svg generated at '' @ now)]\<rparr>],
                        root = None\<rparr>
           \<and> map_of attrs ''xmlns'' = Some ''http://www.w3.org/2000/svg''
           \<and> map_of attrs ''version'' = Some ''1.1''
           \<and> (width \<noteq> PNone \<longrightarrow>
                 (\<exists>s. py_str width = Inr s \<and> map_of attrs ''width'' = Some s))
           \<and> (height \<noteq> PNone \<longrightarrow>
                 (\<exists>s. py_str height = Inr s \<and> map_of attrs ''height'' = Some s))))"
proof (intro conjI)
  show "(''xmlns'' \<in> set (keys extras) \<or> ''version'' \<in> set (keys extras))
      \<longrightarrow> SVGBuilder_init width height extras now = Inl TypeError"
  proof
    assume dup: "''xmlns'' \<in> set (keys extras) \<or> ''version'' \<in> set (keys extras)"
    show "SVGBuilder_init width height extras now = Inl TypeError"
    proof (cases "bind_kwargs [''self'', ''width'', ''height''] extras")
      case (Inl e)
      then have "e = TypeError" by (simp add: bind_kwargs_Inl)
      with Inl show ?thesis by (simp add: SVGBuilder_init_def)
    next
      case (Inr kw)
      then have "kw = extras" by (simp add: bind_kwargs_Inr)
      moreover have "\<not> distinct (keys ([(''xmlns'', PStr ''http://www.w3.org/2000/svg''),
                        (''version'', PStr ''1.1'')] @ extras))"
        using dup by (auto simp: keys_def)
      ultimately show ?thesis
        using Inr by (simp add: SVGBuilder_init_def merge_kwargs_def)
    qed
  qed
next
  show "SVGBuilder_init width height extras now = Inr b \<longrightarrow>
        (\<exists>attrs. b = \<lparr>stack = [\<lparr>ftag = ''svg'', fattrs = attrs,
                                  fchildren = [Comment (''vbl-stats svg generated at '' @ now)]\<rparr>],
                        root = None\<rparr>
           \<and> map_of attrs ''xmlns'' = Some ''http://www.w3.org/2000/svg''
           \<and> map_of attrs ''version'' = Some ''1.1''
           \<and> (width \<noteq> PNone \<longrightarrow>
                 (\<exists>s. py_str width = Inr s \<and> map_of attrs ''width'' = Some s))
           \<and> (height \<noteq> PNone \<longrightarrow>
                 (\<exists>s. py_str height = Inr s \<and> map_of attrs ''height'' = Some s)))"
  proof
    assume ok: "SVGBuilder_init width height extras now = Inr b"
    let ?kws = "[(''xmlns'', PStr ''http://www.w3.org/2000/svg''), (''version'', PStr ''1.1'')] @ extras"
    from ok obtain a0 a1 a2 where dist: "distinct (keys ?kws)"
      and a0: "fix_attrs ?kws = Inr a0"
      and a1: "(if width \<noteq> PNone then bindE (py_str width) (\<lambda>s. Inr (dict_set ''width'' s a0))
                else Inr a0) = Inr a1"
      and a2: "(if height \<noteq> PNone then bindE (py_str height) (\<lambda>s. Inr (dict_set ''height'' s a1))
                else Inr a1) = Inr a2"
      and b: "b = append_child (Comment (''vbl-stats svg generated at '' @ now))
                    (tb_start ''svg'' a2 TreeBuilder_init)"
      by (auto simp: SVGBuilder_init_def bindE_Inr_iff bind_kwargs_Inr merge_kwargs_Inr)
    have x0: "map_of a0 ''xmlns'' = Some ''http://www.w3.org/2000/svg''"
      using fix_attrs_geometry [OF a0 dist, of "''xmlns''" "PStr ''http://www.w3.org/2000/svg''"]
      by simp
    have v0: "map_of a0 ''version'' = Some ''1.1''"
      using fix_attrs_geometry [OF a0 dist, of "''version''" "PStr ''1.1''"] by simp
    have x1: "map_of a1 ''xmlns'' = Some ''http://www.w3.org/2000/svg''"
      and v1: "map_of a1 ''version'' = Some ''1.1''"
      and w1: "width \<noteq> PNone \<longrightarrow> (\<exists>s. py_str width = Inr s \<and> map_of a1 ''width'' = Some s)"
      using a1 x0 v0 by (auto simp: bindE_Inr_iff map_of_dict_set split: if_splits)
    have x2: "map_of a2 ''xmlns'' = Some ''http://www.w3.org/2000/svg''"
      and v2: "map_of a2 ''version'' = Some ''1.1''"
      and w2: "width \<noteq> PNone \<longrightarrow> (\<exists>s. py_str width = Inr s \<and> map_of a2 ''width'' = Some s)"
      and h2: "height \<noteq> PNone \<longrightarrow> (\<exists>s. py_str height = Inr s \<and> map_of a2 ''height'' = Some s)"
      using a2 x1 v1 w1 by (auto simp: bindE_Inr_iff map_of_dict_set split: if_splits)
    have "b = \<lparr>stack = [\<lparr>ftag = ''svg'', fattrs = a2,
                  fchildren = [Comment (''vbl-stats svg generated at '' @ now)]\<rparr>], root = None\<rparr>"
      using b by (simp add: append_child_def tb_start_def TreeBuilder_init_def)
    with x2 v2 w2 h2 show "\<exists>attrs. b = \<lparr>stack = [\<lparr>ftag = ''svg'', fattrs = attrs,
                                  fchildren = [Comment (''vbl-stats svg generated at '' @ now)]\<rparr>],
                        root = None\<rparr>
           \<and> map_of attrs ''xmlns'' = Some ''http://www.w3.org/2000/svg''
           \<and> map_of attrs ''version'' = Some ''1.1''
           \<and> (width \<noteq> PNone \<longrightarrow>
                 (\<exists>s. py_str width = Inr s \<and> map_of attrs ''width'' = Some s))
           \<and> (height \<noteq> PNone \<longrightarrow>
                 (\<exists>s. py_str height = Inr s \<and> map_of attrs ''height'' = Some s))"
      by blast
  qed
qed

theorem init_fixed_attrs_witness:
  "SVGBuilder_init (PInt 100) PNone [(''version'', PStr ''2.0'')] ''t'' = Inl TypeError
   \<and> SVGBuilder_init PNone PNone [(''xmlns'', PStr ''x'')] ''t'' = Inl TypeError
   \<and> (\<exists>attrs. SVGBuilder_init (PInt 100) (PInt 50) [(''stroke_width'', PInt 2)] ''t''
          = Inr \<lparr>stack = [\<lparr>ftag = ''svg'', fattrs = attrs,
                              fchildren = [Comment ''vbl-stats svg generated at t'']\<rparr>],
                  root = None\<rparr>
        \<and> map_of attrs ''version'' = Some ''1.1''
        \<and> map_of attrs ''width'' = Some ''100'' \<and> map_of attrs ''height'' = Some ''50'')"
  using init_fixed_attrs [of "[(''version'', PStr ''2.0'')]" "PInt 100" PNone "''t''"]
    init_fixed_attrs [of "[(''xmlns'', PStr ''x'')]" PNone PNone "''t''"]
    init_fixed_attrs [of "[(''stroke_width'', PInt 2)]" "PInt 100" "PInt 50" "''t''"]
  by (simp add: SVGBuilder_init_def model_defs)

subsection \<open>Opening and closing an element\<close>

lemma tb_end_tb_start:
  "tb_end tag (tb_start tag a b) = Inr (with_child b (Element tag a []))"
  by (cases b; cases "stack b")
    (auto simp: tb_end_def tb_start_def frame_node_def append_child_def)

lemma tb_end_tb_data_tb_start:
  "tb_end tag (tb_data txt (tb_start tag a b)) = Inr (with_child b (Element tag a [Text txt]))"
  by (cases b; cases "stack b")
    (auto simp: tb_end_def tb_data_def tb_start_def frame_node_def append_child_def)


lemma shape_Inr_iff:
  "bindE (bind_kwargs ps extras) (\<lambda>kwargs. bindE (merge_kwargs ex kwargs) f) = Inr y \<longleftrightarrow>
   set (keys extras) \<inter> set ps = {} \<and> distinct (keys (ex @ extras)) \<and> f (ex @ extras) = Inr y"
  by (auto simp: bindE_Inr_iff bind_kwargs_Inr merge_kwargs_Inr)

lemma shape_collision:
  "k \<in> set (keys extras) \<Longrightarrow> k \<in> set ps \<or> k \<in> set (keys ex) \<Longrightarrow>
   bindE (bind_kwargs ps extras) (\<lambda>kwargs. bindE (merge_kwargs ex kwargs) f) = Inl TypeError"
proof (cases "bind_kwargs ps extras")
  case (Inl e)
  then have "e = TypeError" by (simp add: bind_kwargs_Inl)
  with Inl show ?thesis by simp
next
  case (Inr kw)
  assume k: "k \<in> set (keys extras)" and or: "k \<in> set ps \<or> k \<in> set (keys ex)"
  from Inr have kw: "kw = extras" and disj: "set (keys extras) \<inter> set ps = {}"
    by (simp_all add: bind_kwargs_Inr)
  from k or disj have "k \<in> set (keys ex)" by auto
  with k have "\<not> distinct (keys (ex @ extras))" by (auto simp: keys_def)
  then show ?thesis using Inr kw by (simp add: merge_kwargs_def)
qed

lemma item_Inr_iff:
  "item tag kws b = Inr b' \<longleftrightarrow>
   set (keys kws) \<inter> set [''self'', ''tag''] = {}
   \<and> (\<exists>attrs. fix_attrs kws = Inr attrs \<and> b' = with_child b (Element tag attrs []))"
  by (auto simp: item_def bindE_Inr_iff bind_kwargs_Inr tb_end_tb_start)

lemma circle_Inr_iff:
  "circle cx cy r extras b = Inr b' \<longleftrightarrow>
   distinct (keys extras)
   \<and> set (keys extras) \<inter> set [''self'', ''tag'', ''cx'', ''cy'', ''r''] = {}
   \<and> (\<exists>attrs. fix_attrs ([(''cx'', cx), (''cy'', cy), (''r'', r)] @ extras) = Inr attrs
         \<and> b' = with_child b (Element ''circle'' attrs []))"
  unfolding circle_def shape_Inr_iff item_Inr_iff by (auto simp: keys_def)

lemma line_Inr_iff:
  "line x1 y1 x2 y2 extras b = Inr b' \<longleftrightarrow>
   distinct (keys extras)
   \<and> set (keys extras) \<inter> set [''self'', ''tag'', ''x1'', ''y1'', ''x2'', ''y2''] = {}
   \<and> (\<exists>attrs. fix_attrs ([(''x1'', x1), (''y1'', y1), (''x2'', x2), (''y2'', y2)] @ extras)
            = Inr attrs
         \<and> b' = with_child b (Element ''line'' attrs []))"
  unfolding line_def shape_Inr_iff item_Inr_iff by (auto simp: keys_def)

lemma rect_Inr_iff:
  "rect x y w h extras b = Inr b' \<longleftrightarrow>
   distinct (keys extras)
   \<and> set (keys extras)
       \<inter> set [''self'', ''tag'', ''x'', ''y'', ''w'', ''h'', ''width'', ''height''] = {}
   \<and> (\<exists>attrs. fix_attrs ([(''x'', x), (''y'', y), (''width'', w), (''height'', h)] @ extras)
            = Inr attrs
         \<and> b' = with_child b (Element ''rect'' attrs []))"
  unfolding rect_def shape_Inr_iff item_Inr_iff by (auto simp: keys_def)

lemma text_shape_Inr_iff:
  "text_shape txt x y extras b = Inr b' \<longleftrightarrow>
   distinct (keys extras)
   \<and> set (keys extras) \<inter> set [''self'', ''text'', ''x'', ''y''] = {}
   \<and> (\<exists>attrs. fix_attrs ([(''x'', x), (''y'', y)] @ extras) = Inr attrs
         \<and> b' = with_child b (Element ''text'' attrs [Text txt]))"
  unfolding text_shape_def shape_Inr_iff
  by (auto simp: keys_def bindE_Inr_iff tb_end_tb_data_tb_start)

lemma circle_sector_Inr_iff:
  "circle_sector L fx fy fr alpha theta extras b = Inr b' \<longleftrightarrow>
   distinct (keys extras)
   \<and> set (keys extras)
       \<inter> set [''self'', ''tag'', ''cx'', ''cy'', ''r'', ''alpha'', ''theta'', ''d''] = {}
   \<and> (\<exists>d attrs. circle_sector_d L fx fy fr alpha theta = Inr d
         \<and> fix_attrs ([(''d'', PStr d)] @ extras) = Inr attrs
         \<and> b' = with_child b (Element ''path'' attrs []))"
  unfolding circle_sector_def
  by (auto simp: bindE_Inr_iff bind_kwargs_Inr merge_kwargs_Inr item_Inr_iff keys_def)

subsection \<open>Shapes open and close one element\<close>


lemmas shape_defs =
  circle_def line_def rect_def text_shape_def circle_sector_def item_def
  g_def text_group_def defs_def call_start_def

lemmas float_defs =
  circle_sector_d_def example_lib_def millionths_def round_half_even_def pad6_def
  math_pi_def scaled_def


subsection \<open>Geometry keywords and extras\<close>

lemma normalised_name:
  "k \<in> set (keys extras) \<Longrightarrow> replace_char CHR ''_'' CHR ''-'' k \<in> set names \<Longrightarrow>
   list_all (\<lambda>n. CHR ''-'' \<notin> set n) names \<Longrightarrow> \<exists>n \<in> set names. n \<in> set (keys extras)"
  using replace_char_hyphen_free by (fastforce simp: list_all_iff)

lemma circle_attrs:
  assumes "circle cx cy r extras b = Inr b'"
  shows "\<exists>attrs. b' = with_child b (Element ''circle'' attrs [])
       \<and> (\<exists>s. py_str cx = Inr s \<and> map_of attrs ''cx'' = Some s)
       \<and> (\<exists>s. py_str cy = Inr s \<and> map_of attrs ''cy'' = Some s)
       \<and> (\<exists>s. py_str r = Inr s \<and> map_of attrs ''r'' = Some s)"
proof -
  let ?kws = "[(''cx'', cx), (''cy'', cy), (''r'', r)] @ extras"
  from assms obtain attrs where dist: "distinct (keys ?kws)"
    and a: "fix_attrs ?kws = Inr attrs" and b': "b' = with_child b (Element ''circle'' attrs [])"
    unfolding circle_Inr_iff by (auto simp: keys_def)
  have "\<exists>s. py_str cx = Inr s \<and> map_of attrs ''cx'' = Some s"
    "\<exists>s. py_str cy = Inr s \<and> map_of attrs ''cy'' = Some s"
    "\<exists>s. py_str r = Inr s \<and> map_of attrs ''r'' = Some s"
    using fix_attrs_geometry [OF a dist] by simp_all
  with b' show ?thesis by blast
qed

lemma line_attrs:
  assumes "line x1 y1 x2 y2 extras b = Inr b'"
  shows "\<exists>attrs. b' = with_child b (Element ''line'' attrs [])
       \<and> (\<exists>s. py_str x1 = Inr s \<and> map_of attrs ''x1'' = Some s)
       \<and> (\<exists>s. py_str y1 = Inr s \<and> map_of attrs ''y1'' = Some s)
       \<and> (\<exists>s. py_str x2 = Inr s \<and> map_of attrs ''x2'' = Some s)
       \<and> (\<exists>s. py_str y2 = Inr s \<and> map_of attrs ''y2'' = Some s)"
proof -
  let ?kws = "[(''x1'', x1), (''y1'', y1), (''x2'', x2), (''y2'', y2)] @ extras"
  from assms obtain attrs where dist: "distinct (keys ?kws)"
    and a: "fix_attrs ?kws = Inr attrs" and b': "b' = with_child b (Element ''line'' attrs [])"
    unfolding line_Inr_iff by (auto simp: keys_def)
  have "\<exists>s. py_str x1 = Inr s \<and> map_of attrs ''x1'' = Some s"
    "\<exists>s. py_str y1 = Inr s \<and> map_of attrs ''y1'' = Some s"
    "\<exists>s. py_str x2 = Inr s \<and> map_of attrs ''x2'' = Some s"
    "\<exists>s. py_str y2 = Inr s \<and> map_of attrs ''y2'' = Some s"
    using fix_attrs_geometry [OF a dist] by simp_all
  with b' show ?thesis by blast
qed

lemma rect_attrs:
  assumes "rect x y w h extras b = Inr b'"
  shows "\<exists>attrs. b' = with_child b (Element ''rect'' attrs [])
       \<and> (\<exists>s. py_str x = Inr s \<and> map_of attrs ''x'' = Some s)
       \<and> (\<exists>s. py_str y = Inr s \<and> map_of attrs ''y'' = Some s)
       \<and> (\<exists>s. py_str w = Inr s \<and> map_of attrs ''width'' = Some s)
       \<and> (\<exists>s. py_str h = Inr s \<and> map_of attrs ''height'' = Some s)"
proof -
  let ?kws = "[(''x'', x), (''y'', y), (''width'', w), (''height'', h)] @ extras"
  from assms obtain attrs where dist: "distinct (keys ?kws)"
    and a: "fix_attrs ?kws = Inr attrs" and b': "b' = with_child b (Element ''rect'' attrs [])"
    unfolding rect_Inr_iff by (auto simp: keys_def)
  have "\<exists>s. py_str x = Inr s \<and> map_of attrs ''x'' = Some s"
    "\<exists>s. py_str y = Inr s \<and> map_of attrs ''y'' = Some s"
    "\<exists>s. py_str w = Inr s \<and> map_of attrs ''width'' = Some s"
    "\<exists>s. py_str h = Inr s \<and> map_of attrs ''height'' = Some s"
    using fix_attrs_geometry [OF a dist] by simp_all
  with b' show ?thesis by blast
qed

lemma text_shape_attrs:
  assumes "text_shape txt x y extras b = Inr b'"
  shows "\<exists>attrs. b' = with_child b (Element ''text'' attrs [Text txt])
       \<and> (\<exists>s. py_str x = Inr s \<and> map_of attrs ''x'' = Some s)
       \<and> (\<exists>s. py_str y = Inr s \<and> map_of attrs ''y'' = Some s)"
proof -
  let ?kws = "[(''x'', x), (''y'', y)] @ extras"
  from assms obtain attrs where dist: "distinct (keys ?kws)"
    and a: "fix_attrs ?kws = Inr attrs"
    and b': "b' = with_child b (Element ''text'' attrs [Text txt])"
    unfolding text_shape_Inr_iff by (auto simp: keys_def)
  have "\<exists>s. py_str x = Inr s \<and> map_of attrs ''x'' = Some s"
    "\<exists>s. py_str y = Inr s \<and> map_of attrs ''y'' = Some s"
    using fix_attrs_geometry [OF a dist] by simp_all
  with b' show ?thesis by blast
qed

lemma circle_sector_attrs:
  assumes "circle_sector L ox oy rad alpha theta extras b = Inr b'"
  shows "\<exists>attrs d. circle_sector_d L ox oy rad alpha theta = Inr d
       \<and> b' = with_child b (Element ''path'' attrs [])
       \<and> map_of attrs ''d'' = Some d"
proof -
  from assms obtain d attrs where d: "circle_sector_d L ox oy rad alpha theta = Inr d"
    and dist: "distinct (keys ([(''d'', PStr d)] @ extras))"
    and a: "fix_attrs ([(''d'', PStr d)] @ extras) = Inr attrs"
    and b': "b' = with_child b (Element ''path'' attrs [])"
    unfolding circle_sector_Inr_iff by (auto simp: keys_def)
  have "map_of attrs ''d'' = Some d"
    using fix_attrs_geometry [OF a dist, of "''d''" "PStr d"] by simp
  with d b' show ?thesis by blast
qed

lemma circle_sector_d_keyword:
  assumes "''d'' \<in> set (keys extras)"
  shows "circle_sector L ox oy rad alpha theta extras b
       = (if set (keys extras) \<inter> set [''self'', ''cx'', ''cy'', ''r'', ''alpha'', ''theta''] \<noteq> {}
          then Inl TypeError
          else case circle_sector_d L ox oy rad alpha theta of
                 Inl e \<Rightarrow> Inl e
               | Inr d \<Rightarrow> Inl TypeError)"
proof (cases "set (keys extras) \<inter> set [''self'', ''cx'', ''cy'', ''r'', ''alpha'', ''theta''] = {}")
  case False
  then have "bind_kwargs [''self'', ''cx'', ''cy'', ''r'', ''alpha'', ''theta''] extras = Inl TypeError"
    by (cases "bind_kwargs [''self'', ''cx'', ''cy'', ''r'', ''alpha'', ''theta''] extras")
      (auto simp: bind_kwargs_Inl bind_kwargs_Inr)
  with False show ?thesis by (simp add: circle_sector_def)
next
  case True
  then have bind: "bind_kwargs [''self'', ''cx'', ''cy'', ''r'', ''alpha'', ''theta''] extras = Inr extras"
    by (simp add: bind_kwargs_Inr)
  have merge: "merge_kwargs [(''d'', PStr d)] extras = Inl TypeError" for d
    using assms by (simp add: merge_kwargs_def keys_def)
  show ?thesis
    using True by (cases "circle_sector_d L ox oy rad alpha theta")
      (simp_all add: circle_sector_def bind merge)
qed

text \<open>
  Claim C2, amended. An extra attribute whose normalised name is the name of a geometry
  attribute of the shape is that very keyword, given a second time, and the call raises
  without emitting an element. For circle, line, rect and text the error is \<^verbatim>\<open>TypeError\<close>.
  circle_sector computes its path before it passes the keywords on: with an extra \<open>d\<close> it
  raises \<^verbatim>\<open>TypeError\<close> when an extra names one of its parameters or when the computation of
  the path returns, and otherwise the error of that computation. In every shape call that
  returns, each geometry attribute of the emitted element has \<^verbatim>\<open>str\<close> of the value of the
  explicit parameter (for circle_sector, \<open>d\<close> is the computed path).
\<close>

theorem geometry_keyword_collision:
  "((\<exists>k \<in> set (keys extras). replace_char CHR ''_'' CHR ''-'' k \<in> set [''cx'', ''cy'', ''r''])
      \<longrightarrow> circle cx cy r extras b = Inl TypeError)
   \<and> ((\<exists>k \<in> set (keys extras). replace_char CHR ''_'' CHR ''-'' k \<in> set [''x1'', ''y1'', ''x2'', ''y2''])
      \<longrightarrow> line x1 y1 x2 y2 extras b = Inl TypeError)
   \<and> ((\<exists>k \<in> set (keys extras). replace_char CHR ''_'' CHR ''-'' k \<in> set [''x'', ''y'', ''width'', ''height''])
      \<longrightarrow> rect x y w h extras b = Inl TypeError)
   \<and> ((\<exists>k \<in> set (keys extras). replace_char CHR ''_'' CHR ''-'' k \<in> set [''x'', ''y''])
      \<longrightarrow> text_shape txt x y extras b = Inl TypeError)
   \<and> ((\<exists>k \<in> set (keys extras). replace_char CHR ''_'' CHR ''-'' k \<in> set [''d''])
      \<longrightarrow> circle_sector L ox oy rad alpha theta extras b
          = (if set (keys extras) \<inter> set [''self'', ''cx'', ''cy'', ''r'', ''alpha'', ''theta''] \<noteq> {}
             then Inl TypeError
             else case circle_sector_d L ox oy rad alpha theta of
                    Inl e \<Rightarrow> Inl e
                  | Inr d \<Rightarrow> Inl TypeError))
   \<and> (circle cx cy r extras b = Inr b' \<longrightarrow>
        (\<exists>attrs. b' = with_child b (Element ''circle'' attrs [])
           \<and> (\<exists>s. py_str cx = Inr s \<and> map_of attrs ''cx'' = Some s)
           \<and> (\<exists>s. py_str cy = Inr s \<and> map_of attrs ''cy'' = Some s)
           \<and> (\<exists>s. py_str r = Inr s \<and> map_of attrs ''r'' = Some s)))
   \<and> (line x1 y1 x2 y2 extras b = Inr b' \<longrightarrow>
        (\<exists>attrs. b' = with_child b (Element ''line'' attrs [])
           \<and> (\<exists>s. py_str x1 = Inr s \<and> map_of attrs ''x1'' = Some s)
           \<and> (\<exists>s. py_str y1 = Inr s \<and> map_of attrs ''y1'' = Some s)
           \<and> (\<exists>s. py_str x2 = Inr s \<and> map_of attrs ''x2'' = Some s)
           \<and> (\<exists>s. py_str y2 = Inr s \<and> map_of attrs ''y2'' = Some s)))
   \<and> (rect x y w h extras b = Inr b' \<longrightarrow>
        (\<exists>attrs. b' = with_child b (Element ''rect'' attrs [])
           \<and> (\<exists>s. py_str x = Inr s \<and> map_of attrs ''x'' = Some s)
           \<and> (\<exists>s. py_str y = Inr s \<and> map_of attrs ''y'' = Some s)
           \<and> (\<exists>s. py_str w = Inr s \<and> map_of attrs ''width'' = Some s)
           \<and> (\<exists>s. py_str h = Inr s \<and> map_of attrs ''height'' = Some s)))
   \<and> (text_shape txt x y extras b = Inr b' \<longrightarrow>
        (\<exists>attrs. b' = with_child b (Element ''text'' attrs [Text txt])
           \<and> (\<exists>s. py_str x = Inr s \<and> map_of attrs ''x'' = Some s)
           \<and> (\<exists>s. py_str y = Inr s \<and> map_of attrs ''y'' = Some s)))
   \<and> (circle_sector L ox oy rad alpha theta extras b = Inr b' \<longrightarrow>
        (\<exists>attrs d. circle_sector_d L ox oy rad alpha theta = Inr d
           \<and> b' = with_child b (Element ''path'' attrs [])
           \<and> map_of attrs ''d'' = Some d))"
proof -
  have a1: "(\<exists>k \<in> set (keys extras). replace_char CHR ''_'' CHR ''-'' k \<in> set [''cx'', ''cy'', ''r''])
      \<longrightarrow> circle cx cy r extras b = Inl TypeError"
  proof
    assume "\<exists>k \<in> set (keys extras). replace_char CHR ''_'' CHR ''-'' k \<in> set [''cx'', ''cy'', ''r'']"
    then obtain n where "n \<in> set [''cx'', ''cy'', ''r'']" "n \<in> set (keys extras)"
      using normalised_name [of _ extras "[''cx'', ''cy'', ''r'']"] by auto
    then show "circle cx cy r extras b = Inl TypeError"
      unfolding circle_def by (intro shape_collision [of n]) auto
  qed
  have a2: "(\<exists>k \<in> set (keys extras). replace_char CHR ''_'' CHR ''-'' k \<in> set [''x1'', ''y1'', ''x2'', ''y2''])
      \<longrightarrow> line x1 y1 x2 y2 extras b = Inl TypeError"
  proof
    assume "\<exists>k \<in> set (keys extras). replace_char CHR ''_'' CHR ''-'' k \<in> set [''x1'', ''y1'', ''x2'', ''y2'']"
    then obtain n where "n \<in> set [''x1'', ''y1'', ''x2'', ''y2'']" "n \<in> set (keys extras)"
      using normalised_name [of _ extras "[''x1'', ''y1'', ''x2'', ''y2'']"] by auto
    then show "line x1 y1 x2 y2 extras b = Inl TypeError"
      unfolding line_def by (intro shape_collision [of n]) auto
  qed
  have a3: "(\<exists>k \<in> set (keys extras). replace_char CHR ''_'' CHR ''-'' k \<in> set [''x'', ''y'', ''width'', ''height''])
      \<longrightarrow> rect x y w h extras b = Inl TypeError"
  proof
    assume "\<exists>k \<in> set (keys extras). replace_char CHR ''_'' CHR ''-'' k \<in> set [''x'', ''y'', ''width'', ''height'']"
    then obtain n where "n \<in> set [''x'', ''y'', ''width'', ''height'']" "n \<in> set (keys extras)"
      using normalised_name [of _ extras "[''x'', ''y'', ''width'', ''height'']"] by auto
    then show "rect x y w h extras b = Inl TypeError"
      unfolding rect_def by (intro shape_collision [of n]) (auto simp: keys_def)
  qed
  have a4: "(\<exists>k \<in> set (keys extras). replace_char CHR ''_'' CHR ''-'' k \<in> set [''x'', ''y''])
      \<longrightarrow> text_shape txt x y extras b = Inl TypeError"
  proof
    assume "\<exists>k \<in> set (keys extras). replace_char CHR ''_'' CHR ''-'' k \<in> set [''x'', ''y'']"
    then obtain n where "n \<in> set [''x'', ''y'']" "n \<in> set (keys extras)"
      using normalised_name [of _ extras "[''x'', ''y'']"] by auto
    then show "text_shape txt x y extras b = Inl TypeError"
      unfolding text_shape_def by (intro shape_collision [of n]) auto
  qed
  have a5: "(\<exists>k \<in> set (keys extras). replace_char CHR ''_'' CHR ''-'' k \<in> set [''d''])
      \<longrightarrow> circle_sector L ox oy rad alpha theta extras b
          = (if set (keys extras) \<inter> set [''self'', ''cx'', ''cy'', ''r'', ''alpha'', ''theta''] \<noteq> {}
             then Inl TypeError
             else case circle_sector_d L ox oy rad alpha theta of
                    Inl e \<Rightarrow> Inl e
                  | Inr d \<Rightarrow> Inl TypeError)"
  proof
    assume "\<exists>k \<in> set (keys extras). replace_char CHR ''_'' CHR ''-'' k \<in> set [''d'']"
    then have "''d'' \<in> set (keys extras)"
      using normalised_name [of _ extras "[''d'']"] by auto
    then show "circle_sector L ox oy rad alpha theta extras b
          = (if set (keys extras) \<inter> set [''self'', ''cx'', ''cy'', ''r'', ''alpha'', ''theta''] \<noteq> {}
             then Inl TypeError
             else case circle_sector_d L ox oy rad alpha theta of
                    Inl e \<Rightarrow> Inl e
                  | Inr d \<Rightarrow> Inl TypeError)"
      by (rule circle_sector_d_keyword)
  qed
  have b1: "circle cx cy r extras b = Inr b' \<longrightarrow>
        (\<exists>attrs. b' = with_child b (Element ''circle'' attrs [])
           \<and> (\<exists>s. py_str cx = Inr s \<and> map_of attrs ''cx'' = Some s)
           \<and> (\<exists>s. py_str cy = Inr s \<and> map_of attrs ''cy'' = Some s)
           \<and> (\<exists>s. py_str r = Inr s \<and> map_of attrs ''r'' = Some s))"
    using circle_attrs by blast
  have b2: "line x1 y1 x2 y2 extras b = Inr b' \<longrightarrow>
        (\<exists>attrs. b' = with_child b (Element ''line'' attrs [])
           \<and> (\<exists>s. py_str x1 = Inr s \<and> map_of attrs ''x1'' = Some s)
           \<and> (\<exists>s. py_str y1 = Inr s \<and> map_of attrs ''y1'' = Some s)
           \<and> (\<exists>s. py_str x2 = Inr s \<and> map_of attrs ''x2'' = Some s)
           \<and> (\<exists>s. py_str y2 = Inr s \<and> map_of attrs ''y2'' = Some s))"
    using line_attrs by blast
  have b3: "rect x y w h extras b = Inr b' \<longrightarrow>
        (\<exists>attrs. b' = with_child b (Element ''rect'' attrs [])
           \<and> (\<exists>s. py_str x = Inr s \<and> map_of attrs ''x'' = Some s)
           \<and> (\<exists>s. py_str y = Inr s \<and> map_of attrs ''y'' = Some s)
           \<and> (\<exists>s. py_str w = Inr s \<and> map_of attrs ''width'' = Some s)
           \<and> (\<exists>s. py_str h = Inr s \<and> map_of attrs ''height'' = Some s))"
    using rect_attrs by blast
  have b4: "text_shape txt x y extras b = Inr b' \<longrightarrow>
        (\<exists>attrs. b' = with_child b (Element ''text'' attrs [Text txt])
           \<and> (\<exists>s. py_str x = Inr s \<and> map_of attrs ''x'' = Some s)
           \<and> (\<exists>s. py_str y = Inr s \<and> map_of attrs ''y'' = Some s))"
    using text_shape_attrs by blast
  have b5: "circle_sector L ox oy rad alpha theta extras b = Inr b' \<longrightarrow>
        (\<exists>attrs d. circle_sector_d L ox oy rad alpha theta = Inr d
           \<and> b' = with_child b (Element ''path'' attrs [])
           \<and> map_of attrs ''d'' = Some d)"
    using circle_sector_attrs by blast
  show ?thesis by (intro conjI a1 a2 a3 a4 a5 b1 b2 b3 b4 b5)
qed

theorem geometry_keyword_collision_witness:
  "list_ex (\<lambda>k. replace_char CHR ''_'' CHR ''-'' k \<in> set [''x'', ''y'', ''width'', ''height''])
      (keys [(''fill'', PStr ''red''), (''width'', PInt 9)])
   \<and> rect (PInt 0) (PInt 0) (PInt 4) (PInt 5) [(''fill'', PStr ''red''), (''width'', PInt 9)]
        nested_builder = Inl TypeError
   \<and> circle_sector example_lib (Finite False 0 0) (Finite False 0 0) (Finite False 1 0)
       (Finite False 0 0) (Finite False 0 0) [(''d'', PStr ''M0,0'')] nested_builder
       = Inl TypeError
   \<and> circle_sector example_lib (Finite False 0 0) (Finite False 0 0) (Finite False 1 0)
       (Finite False 0 0) (Infinity False) [(''d'', PStr ''M0,0'')] nested_builder
       = Inl ValueError
   \<and> line (PInt 0) (PInt 0) (PInt 4) (PInt 5) [(''stroke_width'', PInt 2)] example_builder
     = Inr \<lparr>stack = [\<lparr>ftag = ''svg'', fattrs = [],
                        fchildren = [Element ''line''
                          [(''x1'', ''0''), (''y1'', ''0''), (''x2'', ''4''), (''y2'', ''5''),
                           (''stroke-width'', ''2'')] []]\<rparr>],
             root = None\<rparr>"
  using geometry_keyword_collision [of "[(''fill'', PStr ''red''), (''width'', PInt 9)]"
      "PInt 0" "PInt 0" "PInt 0" nested_builder "PInt 0" "PInt 0" "PInt 0" "PInt 0"
      "PInt 0" "PInt 0" "PInt 4" "PInt 5"]
  by (simp add: shape_defs model_defs float_defs)

text \<open>
  The precedence the spec states is not what happens: \<^verbatim>\<open>circle(1, 2, 3, cx=5)\<close> emits no
  element with \<open>cx = 1\<close>, it raises; without the extra the element is emitted.
\<close>

theorem geometry_precedence_counterexample:
  "circle (PInt 1) (PInt 2) (PInt 3) [(''cx'', PInt 5)] example_builder = Inl TypeError
   \<and> circle (PInt 1) (PInt 2) (PInt 3) [] example_builder
     = Inr (append_child (Element ''circle'' [(''cx'', ''1''), (''cy'', ''2''), (''r'', ''3'')] [])
         example_builder)"
  by (simp add: shape_defs model_defs)

subsection \<open>The scope of a group handle\<close>





subsection \<open>The path of a circle sector\<close>

lemma circle_sector_d_text:
  assumes "math_cos L alpha = Inr c1" and "math_sin L alpha = Inr s1"
    and "math_cos L (float_add L alpha theta) = Inr c2"
    and "math_sin L (float_add L alpha theta) = Inr s2"
  shows "circle_sector_d L cx cy r alpha theta
    = Inr (''M'' @ fmt_f cx @ '','' @ fmt_f cy
        @ '' L'' @ fmt_f (float_add L cx (float_mul L r c1))
        @ '','' @ fmt_f (float_add L cy (float_mul L r s1))
        @ '' A'' @ fmt_f r @ '','' @ fmt_f r @ '' 0 ''
        @ flag (float_gt (float_abs theta) math_pi) @ '',''
        @ flag (float_gt theta (Finite False 0 0)) @ '' ''
        @ fmt_f (float_add L cx (float_mul L r c2))
        @ '','' @ fmt_f (float_add L cy (float_mul L r s2)) @ '' Z'')"
  using assms
  by (simp add: circle_sector_d_def flag_def str_int_def str_nat.simps digit_def)

lemma circle_sector_d_Inr:
  assumes "circle_sector_d L cx cy r alpha theta = Inr d"
  shows "\<exists>c1 s1 c2 s2. math_cos L alpha = Inr c1 \<and> math_sin L alpha = Inr s1
    \<and> math_cos L (float_add L alpha theta) = Inr c2
    \<and> math_sin L (float_add L alpha theta) = Inr s2"
  using assms unfolding circle_sector_d_def by (auto simp: bindE_Inr_iff)




subsection \<open>The numbers of a sector path\<close>

lemma is_digit_digit: "n < 10 \<Longrightarrow> is_digit (digit n)"
proof -
  assume "n < 10"
  then have "n \<in> {0, 1, 2, 3, 4, 5, 6, 7, 8, 9}" by auto
  then show ?thesis by (auto simp: digit_def is_digit_def)
qed

lemma str_nat_digits: "str_nat n \<noteq> [] \<and> list_all is_digit (str_nat n)"
proof (induction n rule: str_nat.induct)
  case (1 n)
  show ?case
  proof (cases "n < 10")
    case True
    then show ?thesis by (simp add: str_nat.simps [of n] is_digit_digit)
  next
    case False
    with 1 show ?thesis by (simp add: str_nat.simps [of n] is_digit_digit)
  qed
qed

lemma pad6_digits: "length (pad6 k) = 6 \<and> list_all is_digit (pad6 k)"
  by (simp add: pad6_def is_digit_digit)

lemma fixed6_digits:
  assumes "ds \<noteq> []" and "list_all is_digit ds" and "length fs = 6" and "list_all is_digit fs"
  shows "fixed6 ((if s then ''-'' else '''') @ ds @ ''.'' @ fs)"
proof -
  have point: "\<not> is_digit CHR ''.''" and minus: "\<not> is_digit CHR ''-''"
    by (simp_all add: is_digit_def)
  have all: "\<And>c. c \<in> set ds \<Longrightarrow> is_digit c"
    using assms(2) by (simp add: list_all_iff)
  have tw: "takeWhile is_digit (ds @ ''.'' @ fs) = ds"
    using all point by (simp add: takeWhile_append2)
  have dw: "dropWhile is_digit (ds @ ''.'' @ fs) = ''.'' @ fs"
    using all point by (simp add: dropWhile_append2)
  have hd: "hd (ds @ ''.'' @ fs) \<noteq> CHR ''-''"
    using assms(1) all minus by (cases ds) auto
  show ?thesis
  proof (cases s)
    case True
    then show ?thesis
      using tw dw point assms by (simp add: fixed6_def)
  next
    case False
    then show ?thesis
      using tw dw hd point assms by (simp add: fixed6_def)
  qed
qed

lemma fixed6_finite: "fixed6 (fmt_f (Finite s m e))"
  using fixed6_digits [OF conjunct1 [OF str_nat_digits] conjunct2 [OF str_nat_digits]
      conjunct1 [OF pad6_digits] conjunct2 [OF pad6_digits]]
  by (simp add: Let_def)

lemma fixed6_fmt_f: "fixed6 (fmt_f x) = is_finite x"
proof (cases x)
  case (Finite s m e)
  then show ?thesis using fixed6_finite [of s m e] by (simp add: is_finite_def)
next
  case (Infinity s)
  then show ?thesis by (simp add: is_finite_def fixed6_def is_digit_def)
next
  case NaN
  then show ?thesis by (simp add: is_finite_def fixed6_def is_digit_def)
qed

text \<open>
  Claim C9, amended. Every coordinate and radius in the \<open>d\<close> attribute that \<open>circle_sector\<close>
  produces is written by \<^verbatim>\<open>%f\<close>: a finite one in fixed-point notation with six digits after
  the point, a NaN as \<^verbatim>\<open>nan\<close> and an infinity as \<^verbatim>\<open>inf\<close> or \<^verbatim>\<open>-inf\<close>, so the notation is
  fixed-point exactly for the finite ones. The geometry attributes of the other shapes hold
  \<^verbatim>\<open>str\<close> of the value passed.
\<close>

theorem sector_numbers_fixed_point:
  "fixed6 (fmt_f (Finite s m e))
   \<and> fmt_f NaN = ''nan'' \<and> fmt_f (Infinity False) = ''inf'' \<and> fmt_f (Infinity True) = ''-inf''
   \<and> fixed6 (fmt_f x) = is_finite x
   \<and> (circle_sector L cx cy r alpha theta extras b = Inr b' \<longrightarrow>
        (\<exists>attrs c1 s1 c2 s2.
           b' = with_child b (Element ''path'' attrs [])
         \<and> math_cos L alpha = Inr c1 \<and> math_sin L alpha = Inr s1
         \<and> math_cos L (float_add L alpha theta) = Inr c2
         \<and> math_sin L (float_add L alpha theta) = Inr s2
         \<and> map_of attrs ''d''
           = Some (''M'' @ fmt_f cx @ '','' @ fmt_f cy
               @ '' L'' @ fmt_f (float_add L cx (float_mul L r c1))
               @ '','' @ fmt_f (float_add L cy (float_mul L r s1))
               @ '' A'' @ fmt_f r @ '','' @ fmt_f r @ '' 0 ''
               @ flag (float_gt (float_abs theta) math_pi) @ '',''
               @ flag (float_gt theta (Finite False 0 0)) @ '' ''
               @ fmt_f (float_add L cx (float_mul L r c2))
               @ '','' @ fmt_f (float_add L cy (float_mul L r s2)) @ '' Z'')))
   \<and> (circle vx vy vr extras b = Inr b' \<longrightarrow>
        (\<exists>attrs. b' = with_child b (Element ''circle'' attrs [])
         \<and> (\<exists>t. py_str vx = Inr t \<and> map_of attrs ''cx'' = Some t)
         \<and> (\<exists>t. py_str vy = Inr t \<and> map_of attrs ''cy'' = Some t)
         \<and> (\<exists>t. py_str vr = Inr t \<and> map_of attrs ''r'' = Some t)))
   \<and> (line x1 y1 x2 y2 extras b = Inr b' \<longrightarrow>
        (\<exists>attrs. b' = with_child b (Element ''line'' attrs [])
         \<and> (\<exists>t. py_str x1 = Inr t \<and> map_of attrs ''x1'' = Some t)
         \<and> (\<exists>t. py_str y1 = Inr t \<and> map_of attrs ''y1'' = Some t)
         \<and> (\<exists>t. py_str x2 = Inr t \<and> map_of attrs ''x2'' = Some t)
         \<and> (\<exists>t. py_str y2 = Inr t \<and> map_of attrs ''y2'' = Some t)))
   \<and> (rect vx vy w h extras b = Inr b' \<longrightarrow>
        (\<exists>attrs. b' = with_child b (Element ''rect'' attrs [])
         \<and> (\<exists>t. py_str vx = Inr t \<and> map_of attrs ''x'' = Some t)
         \<and> (\<exists>t. py_str vy = Inr t \<and> map_of attrs ''y'' = Some t)
         \<and> (\<exists>t. py_str w = Inr t \<and> map_of attrs ''width'' = Some t)
         \<and> (\<exists>t. py_str h = Inr t \<and> map_of attrs ''height'' = Some t)))
   \<and> (text_shape txt vx vy extras b = Inr b' \<longrightarrow>
        (\<exists>attrs. b' = with_child b (Element ''text'' attrs [Text txt])
         \<and> (\<exists>t. py_str vx = Inr t \<and> map_of attrs ''x'' = Some t)
         \<and> (\<exists>t. py_str vy = Inr t \<and> map_of attrs ''y'' = Some t)))"
proof -
  have sector: "circle_sector L cx cy r alpha theta extras b = Inr b' \<longrightarrow>
        (\<exists>attrs c1 s1 c2 s2.
           b' = with_child b (Element ''path'' attrs [])
         \<and> math_cos L alpha = Inr c1 \<and> math_sin L alpha = Inr s1
         \<and> math_cos L (float_add L alpha theta) = Inr c2
         \<and> math_sin L (float_add L alpha theta) = Inr s2
         \<and> map_of attrs ''d''
           = Some (''M'' @ fmt_f cx @ '','' @ fmt_f cy
               @ '' L'' @ fmt_f (float_add L cx (float_mul L r c1))
               @ '','' @ fmt_f (float_add L cy (float_mul L r s1))
               @ '' A'' @ fmt_f r @ '','' @ fmt_f r @ '' 0 ''
               @ flag (float_gt (float_abs theta) math_pi) @ '',''
               @ flag (float_gt theta (Finite False 0 0)) @ '' ''
               @ fmt_f (float_add L cx (float_mul L r c2))
               @ '','' @ fmt_f (float_add L cy (float_mul L r s2)) @ '' Z''))"
  proof
    assume "circle_sector L cx cy r alpha theta extras b = Inr b'"
    from circle_sector_attrs [OF this] obtain attrs d
      where d: "circle_sector_d L cx cy r alpha theta = Inr d"
        and b': "b' = with_child b (Element ''path'' attrs [])"
        and a: "map_of attrs ''d'' = Some d"
      by blast
    from circle_sector_d_Inr [OF d] obtain c1 s1 c2 s2
      where cs: "math_cos L alpha = Inr c1" "math_sin L alpha = Inr s1"
        "math_cos L (float_add L alpha theta) = Inr c2"
        "math_sin L (float_add L alpha theta) = Inr s2"
      by blast
    from circle_sector_d_text [OF cs, of cx cy r] d a
    have "map_of attrs ''d''
           = Some (''M'' @ fmt_f cx @ '','' @ fmt_f cy
               @ '' L'' @ fmt_f (float_add L cx (float_mul L r c1))
               @ '','' @ fmt_f (float_add L cy (float_mul L r s1))
               @ '' A'' @ fmt_f r @ '','' @ fmt_f r @ '' 0 ''
               @ flag (float_gt (float_abs theta) math_pi) @ '',''
               @ flag (float_gt theta (Finite False 0 0)) @ '' ''
               @ fmt_f (float_add L cx (float_mul L r c2))
               @ '','' @ fmt_f (float_add L cy (float_mul L r s2)) @ '' Z'')"
      by simp
    with b' cs show "\<exists>attrs c1 s1 c2 s2.
           b' = with_child b (Element ''path'' attrs [])
         \<and> math_cos L alpha = Inr c1 \<and> math_sin L alpha = Inr s1
         \<and> math_cos L (float_add L alpha theta) = Inr c2
         \<and> math_sin L (float_add L alpha theta) = Inr s2
         \<and> map_of attrs ''d''
           = Some (''M'' @ fmt_f cx @ '','' @ fmt_f cy
               @ '' L'' @ fmt_f (float_add L cx (float_mul L r c1))
               @ '','' @ fmt_f (float_add L cy (float_mul L r s1))
               @ '' A'' @ fmt_f r @ '','' @ fmt_f r @ '' 0 ''
               @ flag (float_gt (float_abs theta) math_pi) @ '',''
               @ flag (float_gt theta (Finite False 0 0)) @ '' ''
               @ fmt_f (float_add L cx (float_mul L r c2))
               @ '','' @ fmt_f (float_add L cy (float_mul L r s2)) @ '' Z'')"
      by blast
  qed
  have fmt: "fmt_f NaN = ''nan''" "fmt_f (Infinity False) = ''inf''"
    "fmt_f (Infinity True) = ''-inf''"
    by simp_all
  show ?thesis
    by (intro conjI fixed6_finite fmt fixed6_fmt_f sector impI circle_attrs line_attrs
        rect_attrs text_shape_attrs)
qed

text \<open>
  Radius 1 is \<^verbatim>\<open>1.000000\<close> in the path of a sector and \<^verbatim>\<open>1\<close> in the \<open>r\<close> of a circle.
\<close>

theorem sector_numbers_fixed_point_witness:
  "fixed6 ''1.000000'' \<and> fmt_f (Finite False 1 0) = ''1.000000''
   \<and> fmt_f (Finite True 5 (- 2)) = ''-1.250000''
   \<and> py_str (PInt 1) = Inr ''1'' \<and> \<not> fixed6 ''1''
   \<and> circle_sector example_lib (Finite False 0 0) (Finite False 0 0) (Finite False 1 0)
        (Finite False 0 0) (Finite False 884279719003555 (- 49)) [] example_builder
     = Inr \<lparr>stack = [\<lparr>ftag = ''svg'', fattrs = [],
                        fchildren = [Element ''path''
                          [(''d'', ''M0.000000,0.000000 L1.000000,0.000000 A1.000000,1.000000 0 0,1 0.000000,1.000000 Z'')]
                          []]\<rparr>],
             root = None\<rparr>
   \<and> circle (PInt 0) (PInt 0) (PInt 1) [] example_builder
     = Inr \<lparr>stack = [\<lparr>ftag = ''svg'', fattrs = [],
                        fchildren = [Element ''circle''
                          [(''cx'', ''0''), (''cy'', ''0''), (''r'', ''1'')] []]\<rparr>],
             root = None\<rparr>"
  using sector_numbers_fixed_point [of False 1 0 "Finite False 1 0" example_lib
      "Finite False 0 0" "Finite False 0 0" "Finite False 1 0" "Finite False 0 0"
      "Finite False 884279719003555 (- 49)" "[]" example_builder
      "\<lparr>stack = [\<lparr>ftag = ''svg'', fattrs = [],
                        fchildren = [Element ''path''
                          [(''d'', ''M0.000000,0.000000 L1.000000,0.000000 A1.000000,1.000000 0 0,1 0.000000,1.000000 Z'')]
                          []]\<rparr>],
             root = None\<rparr>"
      "PInt 0" "PInt 0" "PInt 1"]
  by (simp add: shape_defs model_defs float_defs flag_def fixed6_def is_digit_def)

text \<open>
  A sector whose centre has a NaN abscissa: the path holds \<^verbatim>\<open>nan\<close>, which is no fixed-point
  notation.
\<close>

theorem sector_nan_counterexample:
  "circle_sector example_lib NaN (Finite False 0 0) (Finite False 1 0)
        (Finite False 0 0) (Finite False 0 0) [] example_builder
     = Inr \<lparr>stack = [\<lparr>ftag = ''svg'', fattrs = [],
                        fchildren = [Element ''path''
                          [(''d'', ''Mnan,0.000000 Lnan,0.000000 A1.000000,1.000000 0 0,0 nan,0.000000 Z'')]
                          []]\<rparr>],
             root = None\<rparr>
   \<and> fmt_f NaN = ''nan'' \<and> \<not> fixed6 ''nan''"
  by (simp add: shape_defs model_defs float_defs flag_def fixed6_def is_digit_def)

end
